theory Spec2Isabelle
  imports Complex_Main "HOL-Library.Sublist"
begin

section \<open>Strings\<close>

text \<open>
  A JavaScript string is a sequence of UTF-16 code units; \<open>length\<close>, \<open>includes\<close>,
  \<open>split\<close>, \<open>trim\<close> and the regular expressions of the program (none has the
  \<open>u\<close> flag) all work on code units. A string is therefore a list of code units,
  each a natural number below 65536. \<open>asc\<close> turns an ASCII literal into such a list; the
  Turkish letters and the control characters of the source's literals are spelled by name.
\<close>

type_synonym ustring = "nat list"

definition asc :: "string \<Rightarrow> ustring" where
  "asc s = map of_char s"

abbreviation LF :: nat where "LF \<equiv> 10"
abbreviation dquote :: nat where "dquote \<equiv> 34"
abbreviation C_ced :: nat where "C_ced \<equiv> 199"
abbreviation O_uml :: nat where "O_uml \<equiv> 214"
abbreviation U_uml :: nat where "U_uml \<equiv> 220"
abbreviation a_circ :: nat where "a_circ \<equiv> 226"
abbreviation c_ced :: nat where "c_ced \<equiv> 231"
abbreviation o_uml :: nat where "o_uml \<equiv> 246"
abbreviation u_uml :: nat where "u_uml \<equiv> 252"
abbreviation G_brv :: nat where "G_brv \<equiv> 286"
abbreviation g_brv :: nat where "g_brv \<equiv> 287"
abbreviation I_dot :: nat where "I_dot \<equiv> 304"
abbreviation i_nodot :: nat where "i_nodot \<equiv> 305"
abbreviation S_ced :: nat where "S_ced \<equiv> 350"
abbreviation s_ced :: nat where "s_ced \<equiv> 351"
abbreviation low_quote :: nat where "low_quote \<equiv> 8222"

text \<open>\<open>String.prototype.includes\<close>: the second string occurs as a contiguous run.\<close>

fun str_includes :: "ustring \<Rightarrow> ustring \<Rightarrow> bool" where
  "str_includes [] t = (t = [])"
| "str_includes (c # s) t = (prefix t (c # s) \<or> str_includes s t)"

text \<open>
  White space and line terminators of ECMAScript: what \<open>trim\<close> removes and what
  \<open>\s\<close> matches.
\<close>

definition is_ws :: "nat \<Rightarrow> bool" where
  "is_ws c = (c \<in> {9, 10, 11, 12, 13, 32, 160, 5760, 8232, 8233, 8239, 8287, 12288, 65279}
              \<or> (8192 \<le> c \<and> c \<le> 8202))"

definition trim :: "ustring \<Rightarrow> ustring" where
  "trim s = rev (dropWhile is_ws (rev (dropWhile is_ws s)))"

text \<open>
  \<open>s.split(/[...]+/)\<close> for a regular expression that is one character class repeated:
  the pieces between the maximal runs of separator characters, with an empty first or last
  piece when the string starts or ends with a separator, and the one piece \<open>""\<close> for
  the empty string. \<open>cur\<close> is the piece being read, reversed; \<open>insep\<close> tells that
  the previous character was a separator.
\<close>

fun split_go :: "(nat \<Rightarrow> bool) \<Rightarrow> ustring \<Rightarrow> bool \<Rightarrow> ustring \<Rightarrow> ustring list" where
  "split_go P cur insep [] = [rev cur]"
| "split_go P cur insep (c # s) =
     (if P c then (if insep then split_go P [] True s else rev cur # split_go P [] True s)
      else split_go P (c # cur) False s)"

definition split_runs :: "(nat \<Rightarrow> bool) \<Rightarrow> ustring \<Rightarrow> ustring list" where
  "split_runs P s = split_go P [] False s"

text \<open>\<open>Array.prototype.join\<close>.\<close>

fun join :: "ustring \<Rightarrow> ustring list \<Rightarrow> ustring" where
  "join sep [] = []"
| "join sep [x] = x"
| "join sep (x # y # xs) = x @ sep @ join sep (y # xs)"

text \<open>Decimal digits of a natural number.\<close>

fun dec :: "nat \<Rightarrow> ustring" where
  "dec n = (if n < 10 then [48 + n] else dec (n div 10) @ [48 + n mod 10])"

declare dec.simps [simp del]

section \<open>Numbers\<close>

text \<open>
  A JavaScript number is an IEEE 754 binary64 value: a rational with a 53-bit significand,
  an infinity, or NaN. \<open>dbl\<close> rounds an exact rational to the nearest such value, ties to
  even, with gradual underflow below \<open>2^-1022\<close> and overflow to an infinity from
  \<open>2^1024\<close>. The sign of zero is not modelled: every zero the program divides by is a
  length.
\<close>

datatype jsnum = Num rat | PosInf | NegInf | NaN

definition pow2 :: "int \<Rightarrow> rat" where
  "pow2 e = (if 0 \<le> e then 2 ^ nat e else 1 / 2 ^ nat (- e))"

text \<open>The number of binary digits of a positive integer.\<close>

function bitlen :: "int \<Rightarrow> int" where
  "bitlen p = (if p \<le> 0 then 0 else 1 + bitlen (p div 2))"
  by pat_completeness auto
termination
  by (relation "measure nat") auto

declare bitlen.simps [simp del]

text \<open>The exponent \<open>e\<close> with \<open>2^e \<le> a < 2^(e+1)\<close>, for a positive \<open>a\<close>.\<close>

definition binade :: "rat \<Rightarrow> int" where
  "binade a = (case quotient_of a of (p, q) \<Rightarrow>
     let e = bitlen p - bitlen q
     in if pow2 e \<le> a then e else e - 1)"

definition round_even :: "rat \<Rightarrow> int" where
  "round_even q = (let n = \<lfloor>q\<rfloor>; f = q - of_int n
     in if f < 1 / 2 then n else if 1 / 2 < f then n + 1 else if even n then n else n + 1)"

definition dbl :: "rat \<Rightarrow> jsnum" where
  "dbl x = (if x = 0 then Num 0 else
     let a = \<bar>x\<bar>;
         u = pow2 (max (binade a) (- 1022) - 52);
         m = of_int (round_even (a / u)) * u
     in if pow2 1024 \<le> m then (if 0 < x then PosInf else NegInf)
        else Num (if 0 < x then m else - m))"

definition of_count :: "nat \<Rightarrow> jsnum" where
  "of_count n = dbl (of_nat n)"

fun js_neg :: "jsnum \<Rightarrow> jsnum" where
  "js_neg (Num a) = Num (- a)"
| "js_neg PosInf = NegInf"
| "js_neg NegInf = PosInf"
| "js_neg NaN = NaN"

fun js_add :: "jsnum \<Rightarrow> jsnum \<Rightarrow> jsnum" where
  "js_add (Num a) (Num b) = dbl (a + b)"
| "js_add NaN y = NaN"
| "js_add x NaN = NaN"
| "js_add PosInf NegInf = NaN"
| "js_add NegInf PosInf = NaN"
| "js_add PosInf y = PosInf"
| "js_add NegInf y = NegInf"
| "js_add (Num a) y = y"

definition js_sub :: "jsnum \<Rightarrow> jsnum \<Rightarrow> jsnum" where
  "js_sub x y = js_add x (js_neg y)"

text \<open>The sign of a number that is not NaN: \<open>-1\<close>, \<open>0\<close> or \<open>1\<close>.\<close>

fun js_sign :: "jsnum \<Rightarrow> int" where
  "js_sign (Num a) = (if a < 0 then - 1 else if a = 0 then 0 else 1)"
| "js_sign PosInf = 1"
| "js_sign NegInf = - 1"
| "js_sign NaN = 0"

definition signed_inf :: "int \<Rightarrow> jsnum" where
  "signed_inf s = (if s = 0 then NaN else if 0 < s then PosInf else NegInf)"

fun js_mul :: "jsnum \<Rightarrow> jsnum \<Rightarrow> jsnum" where
  "js_mul (Num a) (Num b) = dbl (a * b)"
| "js_mul NaN y = NaN"
| "js_mul x NaN = NaN"
| "js_mul x y = signed_inf (js_sign x * js_sign y)"

fun js_div :: "jsnum \<Rightarrow> jsnum \<Rightarrow> jsnum" where
  "js_div (Num a) (Num b) = (if b = 0 then signed_inf (js_sign (Num a)) else dbl (a / b))"
| "js_div NaN y = NaN"
| "js_div x NaN = NaN"
| "js_div (Num a) y = Num 0"
| "js_div x (Num b) = signed_inf (js_sign x * (if b < 0 then - 1 else 1))"
| "js_div x y = NaN"

fun js_less :: "jsnum \<Rightarrow> jsnum \<Rightarrow> bool" where
  "js_less (Num a) (Num b) = (a < b)"
| "js_less NaN y = False"
| "js_less x NaN = False"
| "js_less x PosInf = (x \<noteq> PosInf)"
| "js_less NegInf y = (y \<noteq> NegInf)"
| "js_less x y = False"

definition js_greater :: "jsnum \<Rightarrow> jsnum \<Rightarrow> bool" where
  "js_greater x y = js_less y x"

definition js_le :: "jsnum \<Rightarrow> jsnum \<Rightarrow> bool" where
  "js_le x y = (js_less x y \<or> (x \<noteq> NaN \<and> x = y))"

text \<open>\<open>Math.max\<close> of two numbers.\<close>

definition js_max :: "jsnum \<Rightarrow> jsnum \<Rightarrow> jsnum" where
  "js_max x y = (if x = NaN \<or> y = NaN then NaN else if js_less x y then y else x)"

text \<open>\<open>Number.isInteger\<close>.\<close>

fun isInteger :: "jsnum \<Rightarrow> bool" where
  "isInteger (Num a) = (of_int \<lfloor>a\<rfloor> = a)"
| "isInteger x = False"

section \<open>The host\<close>

text \<open>
  Four built-ins of the JavaScript engine are taken as parameters, so that every theorem
  holds whatever they compute:
  \<^item> \<open>toLowerCase\<close>, the locale-independent Unicode lower-casing of a string;
  \<^item> \<open>canonicalize\<close>, the case folding of one code unit that a regular expression
    with the \<open>i\<close> flag applies to both sides of a comparison;
  \<^item> \<open>JSON_parse\<close>, with \<open>None\<close> for the \<open>SyntaxError\<close> it throws;
  \<^item> \<open>fmt_number\<close>, \<open>Number.prototype.toString\<close> for the finite numbers that are
    not integers below \<open>10^21\<close> in magnitude.
\<close>

datatype json =
    JNull
  | JBool bool
  | JNumber jsnum
  | JString ustring
  | JArray "json list"
  | JObject "(ustring \<times> json) list"

record host =
  toLowerCase :: "ustring \<Rightarrow> ustring"
  canonicalize :: "nat \<Rightarrow> nat"
  JSON_parse :: "ustring \<Rightarrow> json option"
  fmt_number :: "rat \<Rightarrow> ustring"

text \<open>\<open>Number.prototype.toString\<close>.\<close>

fun Number_toString :: "host \<Rightarrow> jsnum \<Rightarrow> ustring" where
  "Number_toString H (Num a) =
     (if of_int \<lfloor>a\<rfloor> = a \<and> \<bar>a\<bar> < 10 ^ 21
      then (if a < 0 then asc ''-'' else []) @ dec (nat \<bar>\<lfloor>a\<rfloor>\<bar>)
      else fmt_number H a)"
| "Number_toString H PosInf = asc ''Infinity''"
| "Number_toString H NegInf = asc ''-Infinity''"
| "Number_toString H NaN = asc ''NaN''"

text \<open>
  Reading a property of a parsed JSON value: \<open>None\<close> is \<open>undefined\<close>. An object has
  its own entries (one per key, as the parser leaves them); a string and an array have a
  \<open>length\<close>; none of the names the program reads is inherited. Reading a property of
  \<open>null\<close> throws, which the callers model.
\<close>

fun get_prop :: "json \<Rightarrow> ustring \<Rightarrow> json option" where
  "get_prop (JObject kvs) k = map_of kvs k"
| "get_prop (JString s) k = (if k = asc ''length'' then Some (JNumber (of_count (length s))) else None)"
| "get_prop (JArray xs) k = (if k = asc ''length'' then Some (JNumber (of_count (length xs))) else None)"
| "get_prop j k = None"

section \<open>Shared types\<close>

datatype StoryTheme =
  ADVENTURE | FRIENDSHIP | LEARNING | FANTASY | ANIMALS | FAMILY | NATURE | MUSIC

fun theme_value :: "StoryTheme \<Rightarrow> ustring" where
  "theme_value ADVENTURE = asc ''adventure''"
| "theme_value FRIENDSHIP = asc ''friendship''"
| "theme_value LEARNING = asc ''learning''"
| "theme_value FANTASY = asc ''fantasy''"
| "theme_value ANIMALS = asc ''animals''"
| "theme_value FAMILY = asc ''family''"
| "theme_value NATURE = asc ''nature''"
| "theme_value MUSIC = asc ''music''"

definition StoryTheme_values :: "StoryTheme list" where
  "StoryTheme_values =
     [ADVENTURE, FRIENDSHIP, LEARNING, FANTASY, ANIMALS, FAMILY, NATURE, MUSIC]"

datatype StoryLength = SHORT | MEDIUM | LONG

fun length_value :: "StoryLength \<Rightarrow> ustring" where
  "length_value SHORT = asc ''short''"
| "length_value MEDIUM = asc ''medium''"
| "length_value LONG = asc ''long''"

definition StoryLength_values :: "StoryLength list" where
  "StoryLength_values = [SHORT, MEDIUM, LONG]"

record ValidationError =
  field :: ustring
  message :: ustring
  code :: ustring

section \<open>Regular expressions\<close>

text \<open>
  The fragment of ECMAScript regular expressions that the program's patterns use: literal
  text, character classes, \<open>\b\<close>, concatenation, alternation, the greedy quantifier
  \<open>{n,}\<close> (\<open>+\<close> is \<open>{1,}\<close>), the capture group 1 and its backreference \<open>\1\<close>.
  A group that is never referenced is written as its body. The matcher is the backtracking
  matcher of the language: from a state it lists the states in which a match can end, in
  the order in which backtracking tries them, so the first one is the match found. A state
  is the character before the current position (for \<open>\b\<close>), the rest of the input and
  the text captured by group 1.
\<close>

datatype rx =
    Lit ustring
  | Cls "(nat \<times> nat) list"
  | WordB
  | Seq rx rx
  | Alt rx rx
  | AtLeast nat rx
  | Grp rx
  | Back

record regexp =
  source :: rx
  ignoreCase :: bool

type_synonym rx_state = "nat option \<times> ustring \<times> ustring option"

definition same_char :: "host \<Rightarrow> bool \<Rightarrow> nat \<Rightarrow> nat \<Rightarrow> bool" where
  "same_char H ic a b = (if ic then canonicalize H a = canonicalize H b else a = b)"

fun match_lit :: "host \<Rightarrow> bool \<Rightarrow> ustring \<Rightarrow> rx_state \<Rightarrow> rx_state list" where
  "match_lit H ic [] st = [st]"
| "match_lit H ic (c # cs) (p, [], cap) = []"
| "match_lit H ic (c # cs) (p, x # xs, cap) =
     (if same_char H ic c x then match_lit H ic cs (Some x, xs, cap) else [])"

definition in_class :: "host \<Rightarrow> bool \<Rightarrow> (nat \<times> nat) list \<Rightarrow> nat \<Rightarrow> bool" where
  "in_class H ic rs x =
     list_ex (\<lambda>(lo, hi). if ic then list_ex (\<lambda>a. canonicalize H a = canonicalize H x) [lo..<Suc hi]
                           else lo \<le> x \<and> x \<le> hi) rs"

definition word_chars :: "(nat \<times> nat) list" where
  "word_chars = [(97, 122), (65, 90), (48, 57), (95, 95)]"

definition space_chars :: "(nat \<times> nat) list" where
  "space_chars = [(9, 13), (32, 32), (160, 160), (5760, 5760), (8192, 8202), (8232, 8233),
                  (8239, 8239), (8287, 8287), (12288, 12288), (65279, 65279)]"

definition is_word_char :: "nat \<Rightarrow> bool" where
  "is_word_char c = list_ex (\<lambda>(lo, hi). lo \<le> c \<and> c \<le> hi) word_chars"

text \<open>
  The quantifier \<open>{mn,}\<close> over a matcher \<open>f\<close>: one more round first, then, once the
  minimum is reached, stopping here. A round that consumes nothing is not repeated once the
  minimum is reached. The first argument bounds the number of rounds; \<open>mn\<close> plus the
  length of the rest of the input is enough.
\<close>

fun rep_m :: "(rx_state \<Rightarrow> rx_state list) \<Rightarrow> nat \<Rightarrow> nat \<Rightarrow> rx_state \<Rightarrow> rx_state list" where
  "rep_m f 0 mn st = (if mn = 0 then [st] else [])"
| "rep_m f (Suc k) mn st =
     concat (map (rep_m f k (mn - 1))
               (filter (\<lambda>st'. 0 < mn \<or> length (fst (snd st')) < length (fst (snd st))) (f st)))
     @ (if mn = 0 then [st] else [])"

primrec rx_m :: "host \<Rightarrow> bool \<Rightarrow> rx \<Rightarrow> rx_state \<Rightarrow> rx_state list" where
  "rx_m H ic (Lit cs) = match_lit H ic cs"
| "rx_m H ic (Cls rs) =
     (\<lambda>st. case st of
        (p, [], cap) \<Rightarrow> []
      | (p, x # xs, cap) \<Rightarrow> if in_class H ic rs x then [(Some x, xs, cap)] else [])"
| "rx_m H ic WordB =
     (\<lambda>st. case st of (p, s, cap) \<Rightarrow>
        let a = (case p of None \<Rightarrow> False | Some c \<Rightarrow> is_word_char c);
            b = (case s of [] \<Rightarrow> False | x # xs \<Rightarrow> is_word_char x)
        in if a \<noteq> b then [st] else [])"
| "rx_m H ic (Seq r1 r2) = (\<lambda>st. concat (map (rx_m H ic r2) (rx_m H ic r1 st)))"
| "rx_m H ic (Alt r1 r2) = (\<lambda>st. rx_m H ic r1 st @ rx_m H ic r2 st)"
| "rx_m H ic (AtLeast n r) = (\<lambda>st. rep_m (rx_m H ic r) (n + length (fst (snd st))) n st)"
| "rx_m H ic (Grp r) =
     (\<lambda>st. map (\<lambda>st'. case st' of (p', s', c') \<Rightarrow>
                  (p', s', Some (take (length (fst (snd st)) - length s') (fst (snd st)))))
             (rx_m H ic r st))"
| "rx_m H ic Back =
     (\<lambda>st. case st of (p, s, cap) \<Rightarrow>
        (case cap of None \<Rightarrow> [st] | Some t \<Rightarrow> match_lit H ic t st))"

fun alts :: "rx list \<Rightarrow> rx" where
  "alts [] = Lit []"
| "alts [r] = r"
| "alts (r # rs) = Alt r (alts rs)"

text \<open>
  \<open>re.test(s)\<close> for a pattern without the \<open>g\<close> flag: is there a match starting
  somewhere in \<open>s\<close>.
\<close>

fun test_from :: "host \<Rightarrow> regexp \<Rightarrow> nat option \<Rightarrow> ustring \<Rightarrow> bool" where
  "test_from H re p [] = (rx_m H (ignoreCase re) (source re) (p, [], None) \<noteq> [])"
| "test_from H re p (x # xs) =
     (rx_m H (ignoreCase re) (source re) (p, x # xs, None) \<noteq> [] \<or> test_from H re (Some x) xs)"

definition rx_test :: "host \<Rightarrow> regexp \<Rightarrow> ustring \<Rightarrow> bool" where
  "rx_test H re s = test_from H re None s"

text \<open>
  \<open>s.match(re)\<close> for a pattern with the \<open>g\<close> flag returns all matches, found from
  left to right, each search starting where the previous match ended (one further after
  an empty match), or \<open>null\<close> when there is none. \<open>match_count\<close> is the number of
  matches, \<open>0\<close> for \<open>null\<close>. The first argument of \<open>count_from\<close> bounds the number
  of steps; the length of the input plus one is enough.
\<close>

fun count_from :: "host \<Rightarrow> regexp \<Rightarrow> nat \<Rightarrow> nat option \<Rightarrow> ustring \<Rightarrow> nat" where
  "count_from H re 0 p s = 0"
| "count_from H re (Suc k) p s =
     (case rx_m H (ignoreCase re) (source re) (p, s, None) of
        (p', s', c') # rest \<Rightarrow>
          Suc (if length s' < length s then count_from H re k p' s'
               else (case s of [] \<Rightarrow> 0 | x # xs \<Rightarrow> count_from H re k (Some x) xs))
      | [] \<Rightarrow> (case s of [] \<Rightarrow> 0 | x # xs \<Rightarrow> count_from H re k (Some x) xs))"

definition match_count :: "host \<Rightarrow> regexp \<Rightarrow> ustring \<Rightarrow> nat" where
  "match_count H re s = count_from H re (Suc (length s)) None s"

section \<open>The content guard\<close>

datatype rule_kind = Regex | Exact | Contains

datatype rule_severity = Block | Warn | Flag

datatype lang = Tr | En

text \<open>
  The patterns of the configuration are regular expressions with the \<open>g\<close> flag, as all
  the default ones are.
\<close>

record GuardRule =
  rule_id :: ustring
  description :: ustring
  pattern :: regexp
  rule_type :: rule_kind
  severity :: rule_severity
  rule_language :: "lang option"

record ContentGuardConfig =
  blockedTerms_cfg :: "ustring list"
  patterns :: "GuardRule list"
  maxSensitiveReferences :: jsnum
  enabledGuards :: "ustring list"

text \<open>The result of one check, and the verdict of the guard.\<close>

record sub_check =
  sub_safe :: bool
  sub_issues :: "ustring list"
  sub_confidence :: jsnum

record SafetyCheckResult =
  safe :: bool
  confidence :: jsnum
  categories :: "ustring list"
  blockedTerms :: "ustring list"

definition DEFAULT_BLOCKED_TERMS :: "ustring list" where
  "DEFAULT_BLOCKED_TERMS = [
      \<comment> \<open>Violence and fear\<close>
      [s_ced] @ asc ''iddet'', asc ''kan'', [o_uml] @ asc ''l'' @ [u_uml] @ asc ''m'',
      [o_uml] @ asc ''ld'' @ [u_uml] @ asc ''r'', asc ''kavga'', asc ''sava'' @ [s_ced],
      asc ''silah'', asc ''b'' @ [i_nodot, c_ced] @ asc ''ak'', asc ''korku'',
      asc ''korkun'' @ [c_ced], asc ''deh'' @ [s_ced] @ asc ''et'', asc ''kabus'',
      asc ''k'' @ [o_uml] @ asc ''t'' @ [u_uml] @ asc '' r'' @ [u_uml] @ asc ''ya'',
      asc ''canavar'',
      \<comment> \<open>Inappropriate content\<close>
      asc ''alkol'', asc ''sigara'', asc ''uyu'' @ [s_ced] @ asc ''turucu'', asc ''kumar'',
      asc ''para'', asc ''zengin'', asc ''fakir'', asc ''yoksul'',
      asc ''s'' @ [i_nodot] @ asc ''n'' @ [i_nodot] @ asc ''f'',
      asc ''ayr'' @ [i_nodot] @ asc ''mc'' @ [i_nodot] @ asc ''l'' @ [i_nodot] @ asc ''k'',
      asc ''nefret'', [o_uml] @ asc ''fke'',
      asc ''k'' @ [i_nodot] @ asc ''zg'' @ [i_nodot] @ asc ''n'',
      \<comment> \<open>Adult themes\<close>
      asc ''a'' @ [s_ced] @ asc ''k'', asc ''sevgili'',
      [o_uml] @ asc ''p'' @ [u_uml] @ asc ''c'' @ [u_uml] @ asc ''k'', asc ''evlilik'',
      asc ''bo'' @ [s_ced] @ asc ''anma'', asc ''cinsellik'', asc ''dokunma'', asc ''gizli'',
      asc ''yasak'', asc ''mahrem'', [o_uml] @ asc ''zel yer'',
      \<comment> \<open>Negative emotions\<close>
      asc ''nefret'', asc ''i'' @ [g_brv] @ asc ''ren'' @ [c_ced], asc ''tiksinti'',
      asc ''ac'' @ [i_nodot], asc ''a'' @ [g_brv] @ asc ''lama'',
      asc ''g'' @ [o_uml] @ asc ''zya'' @ [s_ced, i_nodot],
      [u_uml] @ asc ''z'' @ [u_uml] @ asc ''nt'' @ [u_uml], asc ''depresyon'',
      asc ''kayg'' @ [i_nodot], asc ''stres'', asc ''endi'' @ [s_ced] @ asc ''e'',
      \<comment> \<open>Religious, political\<close>
      asc ''din'', asc ''tanr'' @ [i_nodot], asc ''allah'', asc ''dua'', asc ''namaz'',
      asc ''kilise'', asc ''camii'', asc ''politika'',
      asc ''h'' @ [u_uml] @ asc ''k'' @ [u_uml] @ asc ''met'',
      asc ''ba'' @ [s_ced] @ asc ''kan'', asc ''se'' @ [c_ced] @ asc ''im'', asc ''parti'',
      \<comment> \<open>Scary creatures\<close>
      [s_ced] @ asc ''eytan'', asc ''cin'', asc ''hayalet'', asc ''zombi'', asc ''vampir'',
      asc ''kurt adam'', asc ''cad'' @ [i_nodot],
      asc ''b'' @ [u_uml] @ asc ''y'' @ [u_uml] @ asc ''c'' @ [u_uml], asc ''lanet'',
      asc ''kara b'' @ [u_uml] @ asc ''y'' @ [u_uml], asc ''b'' @ [u_uml] @ asc ''y'' @ [u_uml]]"

definition DEFAULT_GUARD_RULES :: "GuardRule list" where
  "DEFAULT_GUARD_RULES =
     [\<lparr>rule_id = asc ''excessive_caps'',
       description = asc ''Excessive capital letters'',
       pattern = \<lparr>source = AtLeast 5 (Cls [(65, 90), (C_ced, C_ced), (G_brv, G_brv),
                   (i_nodot, i_nodot), (I_dot, I_dot), (O_uml, O_uml), (S_ced, S_ced),
                   (U_uml, U_uml)]),
                  ignoreCase = False\<rparr>,
       rule_type = Regex, severity = Warn, rule_language = None\<rparr>,
      \<lparr>rule_id = asc ''repetitive_words'',
       description = asc ''Repetitive words (same word 3+ times)'',
       pattern = \<lparr>source = Seq WordB (Seq (Grp (AtLeast 1 (Cls word_chars)))
                   (Seq (AtLeast 2 (Seq (AtLeast 1 (Cls space_chars)) Back)) WordB)),
                  ignoreCase = True\<rparr>,
       rule_type = Regex, severity = Warn, rule_language = None\<rparr>,
      \<lparr>rule_id = asc ''violence_keywords'',
       description = asc ''Violence-related keywords'',
       pattern = \<lparr>source = alts [Lit (asc ''vurmak''),
                      Lit (asc ''d'' @ [o_uml] @ asc ''vmek''),
                      Lit (asc ''sald'' @ [i_nodot] @ asc ''rmak''),
                      Lit (asc ''zarar''),
                      Lit (asc ''yaralamak''),
                      Lit (asc ''ac'' @ [i_nodot] @ asc '' vermek'')],
                  ignoreCase = True\<rparr>,
       rule_type = Regex, severity = Block, rule_language = None\<rparr>,
      \<lparr>rule_id = asc ''fear_keywords'',
       description = asc ''Fear and scary content'',
       pattern = \<lparr>source = alts [Lit (asc ''korkutucu''),
                      Lit (asc ''deh'' @ [s_ced] @ asc ''etli''),
                      Lit ([u_uml] @ asc ''rk'' @ [u_uml] @ asc ''t'' @ [u_uml] @ asc ''c'' @ [u_uml]),
                      Lit (asc ''karabasan''),
                      Lit (asc ''k'' @ [a_circ] @ asc ''bus'')],
                  ignoreCase = True\<rparr>,
       rule_type = Regex, severity = Block, rule_language = None\<rparr>,
      \<lparr>rule_id = asc ''inappropriate_contact'',
       description = asc ''Inappropriate physical contact'',
       pattern = \<lparr>source = Seq (alts [Lit (asc ''dokunmak''),
                      Lit (asc ''ellemek''),
                      Lit ([o_uml] @ asc ''pmek''),
                      Lit (asc ''sar'' @ [i_nodot] @ asc ''lmak'')])
                    (Seq (Lit (asc '' ''))
                       (alts [Lit (asc ''gizli''),
                              Lit ([o_uml] @ asc ''zel''),
                              Lit (asc ''yasak'')])),
                  ignoreCase = True\<rparr>,
       rule_type = Regex, severity = Block, rule_language = None\<rparr>,
      \<lparr>rule_id = asc ''negative_emotions_excessive'',
       description = asc ''Excessive negative emotions'',
       pattern = \<lparr>source = alts [Lit ([c_ced] @ asc ''ok '' @ [u_uml] @ asc ''zg'' @ [u_uml] @ asc ''n''),
                      Lit ([c_ced] @ asc ''ok korkuyor''),
                      Lit ([c_ced] @ asc ''ok a'' @ [g_brv] @ asc ''l'' @ [i_nodot] @ asc ''yor''),
                      Lit (asc ''deh'' @ [s_ced] @ asc ''ete kap'' @ [i_nodot] @ asc ''lm'' @ [i_nodot, s_ced])],
                  ignoreCase = True\<rparr>,
       rule_type = Regex, severity = Warn, rule_language = None\<rparr>]"

definition DEFAULT_CONFIG :: ContentGuardConfig where
  "DEFAULT_CONFIG =
     \<lparr>blockedTerms_cfg = DEFAULT_BLOCKED_TERMS,
      patterns = DEFAULT_GUARD_RULES,
      maxSensitiveReferences = Num 1,
      enabledGuards = [asc ''blocked_terms'', asc ''regex_patterns'', asc ''length_check'',
                       asc ''repetition_check'']\<rparr>"

text \<open>The blocked-term scan.\<close>

definition checkBlockedTerms :: "host \<Rightarrow> ustring \<Rightarrow> ustring list \<Rightarrow> sub_check" where
  "checkBlockedTerms H content terms =
     (let lowerContent = toLowerCase H content;
          foundTerms = filter (\<lambda>term. str_includes lowerContent (toLowerCase H term)) terms
      in \<lparr>sub_safe = (length foundTerms = 0),
          sub_issues = map (\<lambda>term. asc ''Blocked term found: '' @ term) foundTerms,
          sub_confidence =
            (if length foundTerms = 0 then Num 1
             else js_max (dbl (1 / 10))
                    (js_sub (Num 1) (js_mul (of_count (length foundTerms)) (dbl (3 / 10)))))\<rparr>)"

text \<open>
  The regular-expression scan: the loop over the rules carries the issues and the number
  of blocking issues.
\<close>

fun regex_loop :: "host \<Rightarrow> ustring \<Rightarrow> GuardRule list \<Rightarrow> ustring list \<times> nat \<Rightarrow> ustring list \<times> nat" where
  "regex_loop H content [] acc = acc"
| "regex_loop H content (rule # rules) (issues, blockingIssues) =
     (let matches = match_count H (pattern rule) content
      in regex_loop H content rules
           (if 0 < matches
            then (issues @ [description rule @ asc '': '' @ dec matches @ asc '' matches found''],
                  if severity rule = Block then blockingIssues + 1 else blockingIssues)
            else (issues, blockingIssues)))"

definition checkRegexPatterns :: "host \<Rightarrow> ustring \<Rightarrow> GuardRule list \<Rightarrow> sub_check" where
  "checkRegexPatterns H content rules =
     (case regex_loop H content rules ([], 0) of (issues, blockingIssues) \<Rightarrow>
        \<lparr>sub_safe = (blockingIssues = 0),
         sub_issues = issues,
         sub_confidence =
           (if blockingIssues = 0
            then js_max (dbl (1 / 2)) (js_sub (Num 1) (js_mul (of_count (length issues)) (dbl (1 / 10))))
            else dbl (2 / 10))\<rparr>)"

text \<open>The length and structure check.\<close>

definition is_terminator :: "nat \<Rightarrow> bool" where
  "is_terminator c = (c \<in> {46, 33, 63})"

definition checkContentLength :: "ustring \<Rightarrow> sub_check" where
  "checkContentLength content =
     (let wordCount = length (split_runs is_ws content);
          issues = (if wordCount < 50 then [asc ''Content too short''] else [])
                 @ (if 1000 < wordCount then [asc ''Content too long''] else []);
          sentences = filter (\<lambda>s. 0 < length (trim s)) (split_runs is_terminator content);
          issues = issues @ (if length sentences < 3 then [asc ''Content lacks proper structure''] else [])
      in \<lparr>sub_safe = (length issues = 0),
          sub_issues = issues,
          sub_confidence =
            (if length issues = 0 then dbl (9 / 10)
             else js_max (dbl (3 / 10)) (js_sub (Num 1) (js_mul (of_count (length issues)) (dbl (2 / 10)))))\<rparr>)"

text \<open>
  The word-frequency table \<open>wordCount[word] = (wordCount[word] || 0) + 1\<close> is a plain
  object. \<open>tally\<close> gives its own properties in creation order. Two words meet what the
  object inherits: for \<open>__proto__\<close> the assignment of a string is ignored and no property
  is created; for \<open>constructor\<close> the inherited function is read first and the property
  holds a string from then on, which as a number is NaN. \<open>Object.entries\<close> and
  \<open>Object.values\<close> list the properties whose name is an array index (a decimal numeral
  below \<open>2^32 - 1\<close> without a leading zero) first, in ascending order, and then the others
  in creation order.
\<close>

fun bump :: "(ustring \<times> nat) list \<Rightarrow> ustring \<Rightarrow> (ustring \<times> nat) list" where
  "bump [] w = [(w, 1)]"
| "bump ((k, n) # kvs) w = (if k = w then (k, n + 1) # kvs else (k, n) # bump kvs w)"

definition tally :: "ustring list \<Rightarrow> (ustring \<times> nat) list" where
  "tally words = foldl bump [] (filter (\<lambda>word. 3 < length word \<and> word \<noteq> asc ''__proto__'') words)"

definition digits_value :: "ustring \<Rightarrow> nat" where
  "digits_value w = foldl (\<lambda>n c. 10 * n + (c - 48)) 0 w"

definition is_array_index :: "ustring \<Rightarrow> bool" where
  "is_array_index w =
     (w \<noteq> [] \<and> list_all (\<lambda>c. 48 \<le> c \<and> c \<le> 57) w \<and> (hd w \<noteq> 48 \<or> length w = 1)
      \<and> digits_value w < 2 ^ 32 - 1)"

definition own_entries :: "(ustring \<times> nat) list \<Rightarrow> (ustring \<times> nat) list" where
  "own_entries kvs =
     sort_key (\<lambda>(k, n). digits_value k) (filter (\<lambda>(k, n). is_array_index k) kvs)
     @ filter (\<lambda>(k, n). \<not> is_array_index k) kvs"

text \<open>The repetition check.\<close>

definition checkRepetition :: "host \<Rightarrow> ustring \<Rightarrow> sub_check" where
  "checkRepetition H content =
     (let words = split_runs is_ws (toLowerCase H content);
          wordCount = tally words;
          totalWords = length words;
          issues = map (\<lambda>(word, count). asc ''Excessive repetition of word: '' @ word)
                     (filter (\<lambda>(word, count).
                          word \<noteq> asc ''constructor''
                          \<and> js_greater (js_div (of_count count) (of_count totalWords)) (dbl (1 / 10))
                          \<and> 5 < count)
                        (own_entries wordCount))
      in \<lparr>sub_safe = (length issues = 0),
          sub_issues = issues,
          sub_confidence =
            (if length issues = 0 then dbl (8 / 10)
             else js_max (dbl (4 / 10)) (js_sub (Num 1) (js_mul (of_count (length issues)) (dbl (15 / 100)))))\<rparr>)"

text \<open>The categories are collected in a \<open>Set\<close>, which keeps the order of first insertion.\<close>

definition set_add :: "ustring list \<Rightarrow> ustring \<Rightarrow> ustring list" where
  "set_add cats c = (if c \<in> set cats then cats else cats @ [c])"

definition extractCategories :: "ustring list \<Rightarrow> ustring list" where
  "extractCategories issues =
     foldl (\<lambda>cats issue.
        let cats = (if str_includes issue (asc ''Blocked term'')
                          then set_add cats (asc ''inappropriate_content'') else cats);
            cats = (if str_includes issue (asc ''violence'')
                          then set_add cats (asc ''violence'') else cats);
            cats = (if str_includes issue (asc ''fear'') \<or> str_includes issue (asc ''scary'')
                          then set_add cats (asc ''fear'') else cats);
            cats = (if str_includes issue (asc ''repetition'')
                          then set_add cats (asc ''quality_issues'') else cats);
            cats = (if str_includes issue (asc ''length'') \<or> str_includes issue (asc ''structure'')
                          then set_add cats (asc ''format_issues'') else cats)
        in cats) [] issues"

definition extractBlockedTerms :: "host \<Rightarrow> ustring \<Rightarrow> ustring list \<Rightarrow> ustring list" where
  "extractBlockedTerms H content terms =
     (let lowerContent = toLowerCase H content
      in filter (\<lambda>term. str_includes lowerContent (toLowerCase H term)) terms)"

text \<open>The main function: the enabled checks in their fixed order, then the aggregate.\<close>

definition checkContentSafety :: "host \<Rightarrow> ustring \<Rightarrow> ContentGuardConfig \<Rightarrow> SafetyCheckResult" where
  "checkContentSafety H content config =
     (let results =
            (if asc ''blocked_terms'' \<in> set (enabledGuards config)
             then [checkBlockedTerms H content (blockedTerms_cfg config)] else [])
          @ (if asc ''regex_patterns'' \<in> set (enabledGuards config)
             then [checkRegexPatterns H content (patterns config)] else [])
          @ (if asc ''length_check'' \<in> set (enabledGuards config)
             then [checkContentLength content] else [])
          @ (if asc ''repetition_check'' \<in> set (enabledGuards config)
             then [checkRepetition H content] else []);
          allSafe = list_all sub_safe results;
          averageConfidence =
            js_div (foldl (\<lambda>sum r. js_add sum (sub_confidence r)) (Num 0) results)
                   (of_count (length results));
          allIssues = concat (map sub_issues results)
      in \<lparr>safe = allSafe,
          confidence = averageConfidence,
          categories = extractCategories allIssues,
          blockedTerms = extractBlockedTerms H content (blockedTerms_cfg config)\<rparr>)"

definition preCheckUserInput :: "host \<Rightarrow> ustring \<Rightarrow> SafetyCheckResult" where
  "preCheckUserInput H input =
     (let simpleConfig =
            \<lparr>blockedTerms_cfg = DEFAULT_BLOCKED_TERMS,
             patterns = filter (\<lambda>rule. severity rule = Block) DEFAULT_GUARD_RULES,
             maxSensitiveReferences = Num 0,
             enabledGuards = [asc ''blocked_terms'', asc ''regex_patterns'']\<rparr>
      in checkContentSafety H input simpleConfig)"

definition quickSafetyCheck :: "host \<Rightarrow> ustring \<Rightarrow> bool" where
  "quickSafetyCheck H content = safe (checkContentSafety H content DEFAULT_CONFIG)"

section \<open>Validation\<close>

record ValidatedStoryResponse =
  title :: ustring
  content :: ustring
  wordCount :: jsnum
  theme :: StoryTheme
  language :: lang

record QualityThresholds =
  minCoherence :: jsnum
  minReadability :: jsnum
  maxRepetition :: jsnum

record ValidationConfig =
  minWordCount :: jsnum
  maxWordCount :: jsnum
  requiredFields :: "ustring list"
  schemaRules :: "(ustring \<times> json) list"
  qualityThresholds :: QualityThresholds

record validation_result =
  valid :: bool
  data :: "ValidatedStoryResponse option"
  errors :: "ValidationError list"

subsection \<open>The schema\<close>

text \<open>
  The schema is declared with the zod library (version 3). Its \<open>safeParse\<close> reports a
  list of issues, each with a path and a message, or the typed data:
  \<^item> a value that is not an object gives one issue with the empty path;
  \<^item> the keys of an object are checked in the order of the declaration and the issues of
    all keys are collected, the path of each being its key; unknown keys are dropped;
  \<^item> a value of the wrong type (or an absent one) gives one issue and none of the
    further checks of that key runs; the message is \<open>Required\<close> for an absent value;
  \<^item> the checks of a string (\<open>min\<close>, \<open>max\<close>) and of a number (\<open>min\<close>, \<open>max\<close>,
    \<open>int\<close>) all run, in the order of the declaration, each adding its issue, and a
    \<open>refine\<close> runs after them whether they failed or not;
  \<^item> an enumeration with an \<open>errorMap\<close> gives one issue with the mapped message.
\<close>

record zod_issue =
  path :: "ustring list"
  issue_message :: ustring

fun parsed_type :: "json \<Rightarrow> ustring" where
  "parsed_type JNull = asc ''null''"
| "parsed_type (JBool b) = asc ''boolean''"
| "parsed_type (JNumber n) = (if n = NaN then asc ''nan'' else asc ''number'')"
| "parsed_type (JString s) = asc ''string''"
| "parsed_type (JArray xs) = asc ''array''"
| "parsed_type (JObject kvs) = asc ''object''"

definition invalid_type :: "ustring \<Rightarrow> json option \<Rightarrow> ustring" where
  "invalid_type expected v =
     (case v of None \<Rightarrow> asc ''Required''
      | Some j \<Rightarrow> asc ''Expected '' @ expected @ asc '', received '' @ parsed_type j)"

text \<open>
  Each key: the messages of its issues, or its value.
  \<open>title: z.string().min(5, ...).max(100, ...).refine(val => val.trim().length > 0, ...)\<close>
\<close>

definition schema_title :: "json option \<Rightarrow> ustring list + ustring" where
  "schema_title v =
     (case v of
        Some (JString val) \<Rightarrow>
          (let msgs = (if length val < 5 then [asc ''Ba'' @ [s_ced] @ asc ''l'' @ [i_nodot] @ asc ''k '' @ [c_ced] @ asc ''ok k'' @ [i_nodot] @ asc ''sa''] else [])
                    @ (if 100 < length val then [asc ''Ba'' @ [s_ced] @ asc ''l'' @ [i_nodot] @ asc ''k '' @ [c_ced] @ asc ''ok uzun''] else [])
                    @ (if 0 < length (trim val) then [] else [asc ''Ba'' @ [s_ced] @ asc ''l'' @ [i_nodot] @ asc ''k bo'' @ [s_ced] @ asc '' olamaz''])
           in if msgs = [] then Inr val else Inl msgs)
      | _ \<Rightarrow> Inl [invalid_type (asc ''string'') v])"

text \<open>
  \<open>content: z.string().min(50, ...).max(3000, ...).refine(val => val.trim().length > 0, ...)\<close>
\<close>

definition schema_content :: "json option \<Rightarrow> ustring list + ustring" where
  "schema_content v =
     (case v of
        Some (JString val) \<Rightarrow>
          (let msgs = (if length val < 50 then [[I_dot, c_ced] @ asc ''erik '' @ [c_ced] @ asc ''ok k'' @ [i_nodot] @ asc ''sa (minimum 50 karakter)''] else [])
                    @ (if 3000 < length val then [[I_dot, c_ced] @ asc ''erik '' @ [c_ced] @ asc ''ok uzun (maksimum 3000 karakter)''] else [])
                    @ (if 0 < length (trim val) then [] else [[I_dot, c_ced] @ asc ''erik bo'' @ [s_ced] @ asc '' olamaz''])
           in if msgs = [] then Inr val else Inl msgs)
      | _ \<Rightarrow> Inl [invalid_type (asc ''string'') v])"

text \<open>\<open>wordCount: z.number().min(50, ...).max(800, ...).int(...)\<close>\<close>

definition schema_wordCount :: "json option \<Rightarrow> ustring list + jsnum" where
  "schema_wordCount v =
     (case v of
        Some (JNumber n) \<Rightarrow>
          (if n = NaN then Inl [invalid_type (asc ''number'') v]
           else
             let msgs = (if js_less n (Num 50) then [asc ''Kelime say'' @ [i_nodot] @ asc ''s'' @ [i_nodot] @ asc '' '' @ [c_ced] @ asc ''ok az''] else [])
                      @ (if js_greater n (Num 800) then [asc ''Kelime say'' @ [i_nodot] @ asc ''s'' @ [i_nodot] @ asc '' '' @ [c_ced] @ asc ''ok fazla''] else [])
                      @ (if isInteger n then [] else [asc ''Kelime say'' @ [i_nodot] @ asc ''s'' @ [i_nodot] @ asc '' tam say'' @ [i_nodot] @ asc '' olmal'' @ [i_nodot]])
             in if msgs = [] then Inr n else Inl msgs)
      | _ \<Rightarrow> Inl [invalid_type (asc ''number'') v])"

text \<open>\<open>theme: z.nativeEnum(StoryTheme, {errorMap: ...})\<close>\<close>

definition schema_theme :: "json option \<Rightarrow> ustring list + StoryTheme" where
  "schema_theme v =
     (case v of
        Some (JString s) \<Rightarrow>
          (case find (\<lambda>t. theme_value t = s) StoryTheme_values of
             Some t \<Rightarrow> Inr t
           | None \<Rightarrow> Inl [asc ''Ge'' @ [c_ced] @ asc ''ersiz tema''])
      | _ \<Rightarrow> Inl [asc ''Ge'' @ [c_ced] @ asc ''ersiz tema''])"

text \<open>\<open>language: z.enum(['tr', 'en'], {errorMap: ...})\<close>\<close>

definition schema_language :: "json option \<Rightarrow> ustring list + lang" where
  "schema_language v =
     (case v of
        Some (JString s) \<Rightarrow>
          (if s = asc ''tr'' then Inr Tr
           else if s = asc ''en'' then Inr En
           else Inl [asc ''Dil T'' @ [u_uml] @ asc ''rk'' @ [c_ced] @ asc ''e (tr) veya '' @ [I_dot] @ asc ''ngilizce (en) olmal'' @ [i_nodot]])
      | _ \<Rightarrow> Inl [asc ''Dil T'' @ [u_uml] @ asc ''rk'' @ [c_ced] @ asc ''e (tr) veya '' @ [I_dot] @ asc ''ngilizce (en) olmal'' @ [i_nodot]])"

definition key_issues :: "ustring \<Rightarrow> ustring list + 'a \<Rightarrow> zod_issue list" where
  "key_issues k r =
     (case r of Inl msgs \<Rightarrow> map (\<lambda>m. \<lparr>path = [k], issue_message = m\<rparr>) msgs | Inr x \<Rightarrow> [])"

text \<open>\<open>StoryResponseSchema.safeParse\<close>: the issues, or the data.\<close>

definition StoryResponseSchema :: "json \<Rightarrow> zod_issue list + ValidatedStoryResponse" where
  "StoryResponseSchema parsedData =
     (case parsedData of
        JObject kvs \<Rightarrow>
          (let t = schema_title (map_of kvs (asc ''title''));
               c = schema_content (map_of kvs (asc ''content''));
               w = schema_wordCount (map_of kvs (asc ''wordCount''));
               th = schema_theme (map_of kvs (asc ''theme''));
               l = schema_language (map_of kvs (asc ''language''))
           in case (t, c, w, th, l) of
                (Inr t', Inr c', Inr w', Inr th', Inr l') \<Rightarrow>
                  Inr \<lparr>title = t', content = c', wordCount = w', theme = th', language = l'\<rparr>
              | _ \<Rightarrow>
                  Inl (key_issues (asc ''title'') t @ key_issues (asc ''content'') c
                       @ key_issues (asc ''wordCount'') w @ key_issues (asc ''theme'') th
                       @ key_issues (asc ''language'') l))
      | _ \<Rightarrow> Inl [\<lparr>path = [], issue_message = invalid_type (asc ''object'') (Some parsedData)\<rparr>])"



subsection \<open>The checks of the content\<close>

definition DEFAULT_VALIDATION_CONFIG :: ValidationConfig where
  "DEFAULT_VALIDATION_CONFIG =
     \<lparr>minWordCount = Num 50,
      maxWordCount = Num 800,
      requiredFields = [asc ''title'', asc ''content'', asc ''wordCount'', asc ''theme'',
                        asc ''language''],
      schemaRules = [],
      qualityThresholds =
        \<lparr>minCoherence = dbl (7 / 10), minReadability = dbl (6 / 10), maxRepetition = dbl (3 / 10)\<rparr>\<rparr>"

text \<open>
  The repetition score. A property \<open>constructor\<close> of the frequency table holds a string
  (see \<open>tally\<close>); the sum of the values is then a string that is no numeral, and the
  score is NaN.
\<close>

definition calculateRepetitionScore :: "host \<Rightarrow> ustring \<Rightarrow> jsnum" where
  "calculateRepetitionScore H text =
     (let words = split_runs is_ws (toLowerCase H text);
          wordCounts = map snd (own_entries (tally words));
          totalMeaningfulWords = sum_list wordCounts;
          repeatedWords = length (filter (\<lambda>count. 2 < count) wordCounts)
      in if asc ''constructor'' \<in> fst ` set (tally words) then NaN
         else js_div (of_count repeatedWords) (js_max (Num 1) (of_count totalMeaningfulWords)))"

definition countWords :: "ustring \<Rightarrow> nat" where
  "countWords text = length (filter (\<lambda>word. 0 < length word) (split_runs is_ws (trim text)))"

record word_range =
  range_min :: nat
  range_max :: nat

text \<open>
  The \<open>default\<close> branch of the source, \<open>{min: 80, max: 650}\<close>, is for a value outside
  the enumeration, which the type excludes.
\<close>

fun getExpectedWordCountRange :: "StoryLength \<Rightarrow> word_range" where
  "getExpectedWordCountRange SHORT = \<lparr>range_min = 80, range_max = 220\<rparr>"
| "getExpectedWordCountRange MEDIUM = \<lparr>range_min = 180, range_max = 420\<rparr>"
| "getExpectedWordCountRange LONG = \<lparr>range_min = 350, range_max = 650\<rparr>"

definition validateContentQuality :: "host \<Rightarrow> ustring \<Rightarrow> ValidationConfig \<Rightarrow> ValidationError list" where
  "validateContentQuality H text config =
     (let sentences = filter (\<lambda>s. 0 < length (trim s)) (split_runs is_terminator text);
          errors1 =
            (if length sentences < 3
             then [\<lparr>field = asc ''content'',
                    message = [I_dot, c_ced] @ asc ''erik yeterli c'' @ [u_uml] @ asc ''mle yap'' @ [i_nodot] @ asc ''s'' @ [i_nodot] @ asc ''na sahip de'' @ [g_brv] @ asc ''il'',
                    code = asc ''INSUFFICIENT_STRUCTURE''\<rparr>]
             else []);
          repetitionScore = calculateRepetitionScore H text;
          errors2 =
            (if js_greater repetitionScore (maxRepetition (qualityThresholds config))
             then [\<lparr>field = asc ''content'',
                    message = [I_dot, c_ced] @ asc ''erikte a'' @ [s_ced, i_nodot] @ asc ''r'' @ [i_nodot] @ asc '' tekrar var'',
                    code = asc ''EXCESSIVE_REPETITION''\<rparr>]
             else []);
          hasDialogue =
            (rx_test H \<lparr>source = Cls [(dquote, dquote), (39, 39), (low_quote, low_quote)],
                        ignoreCase = False\<rparr> text
             \<or> rx_test H \<lparr>source = alts [Lit (asc ''dedi''), Lit (asc ''s'' @ [o_uml] @ asc ''yledi''), Lit (asc ''sordu''),
                                          Lit (asc ''yan'' @ [i_nodot] @ asc ''tlad'' @ [i_nodot])],
                          ignoreCase = False\<rparr> (toLowerCase H text));
          hasNarrative = (5 < length (split_runs is_terminator text));
          errors3 =
            (if \<not> hasDialogue \<and> \<not> hasNarrative
             then [\<lparr>field = asc ''content'',
                    message = [I_dot, c_ced] @ asc ''erik hikaye format'' @ [i_nodot] @ asc ''nda de'' @ [g_brv] @ asc ''il'',
                    code = asc ''NOT_STORY_FORMAT''\<rparr>]
             else [])
      in errors1 @ errors2 @ errors3)"

definition commonTurkishWords :: "ustring list" where
  "commonTurkishWords =
     [asc ''bir'', asc ''ve'', asc ''bu'', asc ''o'', asc ''da'', asc ''de'', asc ''ile'',
      asc ''i'' @ [c_ced] @ asc ''in'', asc ''var'', asc ''olan'']"

definition validateTurkishContent :: "host \<Rightarrow> ustring \<Rightarrow> ValidationError list" where
  "validateTurkishContent H text =
     (let turkishCharPattern =
            \<lparr>source = Cls [(c_ced, c_ced), (g_brv, g_brv), (i_nodot, i_nodot), (I_dot, I_dot),
                           (o_uml, o_uml), (s_ced, s_ced), (u_uml, u_uml), (C_ced, C_ced),
                           (G_brv, G_brv), (O_uml, O_uml), (S_ced, S_ced), (U_uml, U_uml)],
             ignoreCase = False\<rparr>;
          errors1 =
            (if \<not> rx_test H turkishCharPattern text
             then [\<lparr>field = asc ''content'',
                    message = [I_dot, c_ced] @ asc ''erik T'' @ [u_uml] @ asc ''rk'' @ [c_ced] @ asc ''e karakterler i'' @ [c_ced] @ asc ''ermiyor'',
                    code = asc ''NO_TURKISH_CHARACTERS''\<rparr>]
             else []);
          lowerContent = toLowerCase H text;
          foundTurkishWords = filter (\<lambda>word. str_includes lowerContent word) commonTurkishWords;
          errors2 =
            (if length foundTurkishWords < 3
             then [\<lparr>field = asc ''content'',
                    message = [I_dot, c_ced] @ asc ''erik T'' @ [u_uml] @ asc ''rk'' @ [c_ced] @ asc ''e dilinde g'' @ [o_uml] @ asc ''r'' @ [u_uml] @ asc ''nm'' @ [u_uml] @ asc ''yor'',
                    code = asc ''NOT_TURKISH_LANGUAGE''\<rparr>]
             else [])
      in errors1 @ errors2)"

subsection \<open>The response of the generator\<close>

definition validateStoryResponse ::
  "host \<Rightarrow> ustring \<Rightarrow> StoryLength \<Rightarrow> ValidationConfig \<Rightarrow> validation_result" where
  "validateStoryResponse H rawResponse expectedLength config =
     (case JSON_parse H rawResponse of
        None \<Rightarrow>
          \<lparr>valid = False, data = None,
           errors = [\<lparr>field = asc ''response'',
                      message = asc ''Ge'' @ [c_ced] @ asc ''ersiz JSON format'' @ [i_nodot],
                      code = asc ''INVALID_JSON''\<rparr>]\<rparr>
      | Some parsedData \<Rightarrow>
          (case StoryResponseSchema parsedData of
             Inl schemaIssues \<Rightarrow>
               \<lparr>valid = False, data = None,
                errors = map (\<lambda>err.
                           \<lparr>field = (if join (asc ''.'') (path err) = [] then asc ''unknown''
                                     else join (asc ''.'') (path err)),
                            message = issue_message err,
                            code = asc ''SCHEMA_VALIDATION_ERROR''\<rparr>) schemaIssues\<rparr>
           | Inr d \<Rightarrow>
               (let safetyResult = checkContentSafety H (content d) DEFAULT_CONFIG;
                    safetyErrors =
                      (if \<not> safe safetyResult
                       then [\<lparr>field = asc ''content'',
                              message = [I_dot, c_ced] @ asc ''erik g'' @ [u_uml] @ asc ''venlik kontrol'' @ [u_uml] @ asc ''nden ge'' @ [c_ced] @ asc ''emedi: ''
                                        @ join (asc '', '') (categories safetyResult),
                              code = asc ''CONTENT_SAFETY_FAILED''\<rparr>]
                       else []);
                    actualWordCount = countWords (content d);
                    expectedRange = getExpectedWordCountRange expectedLength;
                    wordCountErrors =
                      (if actualWordCount < range_min expectedRange
                          \<or> range_max expectedRange < actualWordCount
                       then [\<lparr>field = asc ''wordCount'',
                              message = asc ''Kelime say'' @ [i_nodot] @ asc ''s'' @ [i_nodot] @ asc '' beklenen aral'' @ [i_nodot] @ asc ''kta de'' @ [g_brv] @ asc ''il. Beklenen: ''
                                        @ dec (range_min expectedRange) @ asc ''-''
                                        @ dec (range_max expectedRange) @ asc '', Ger'' @ [c_ced] @ asc ''ek: ''
                                        @ dec actualWordCount,
                              code = asc ''WORD_COUNT_MISMATCH''\<rparr>]
                       else []);
                    qualityErrors = validateContentQuality H (content d) config;
                    languageErrors = validateTurkishContent H (content d);
                    errs = safetyErrors @ wordCountErrors @ qualityErrors @ languageErrors
                in \<lparr>valid = (length errs = 0),
                    data = (if length errs = 0 then Some d else None),
                    errors = errs\<rparr>)))"

subsection \<open>The request\<close>

text \<open>
  The request is the parsed body, any JSON value. Reading a property of \<open>null\<close> throws a
  \<open>TypeError\<close>; the function has no handler for it.
\<close>

datatype js_error = TypeError

record request_validation =
  request_valid :: bool
  request_errors :: "ValidationError list"

definition validateUserRequest :: "json \<Rightarrow> js_error + request_validation" where
  "validateUserRequest request =
     (if request = JNull then Inl TypeError
      else
        let errors1 =
              (if (case get_prop request (asc ''childName'') of
                     Some (JString s) \<Rightarrow> s = [] \<or> length (trim s) = 0
                   | _ \<Rightarrow> True)
               then [\<lparr>field = asc ''childName'',
                      message = [C_ced] @ asc ''ocuk ad'' @ [i_nodot] @ asc '' gerekli'',
                      code = asc ''MISSING_CHILD_NAME''\<rparr>]
               else []);
            errors2 =
              (if (case get_prop request (asc ''age'') of
                     Some (JNumber n) \<Rightarrow>
                       n = Num 0 \<or> n = NaN \<or> js_less n (Num 3) \<or> js_greater n (Num 18)
                   | _ \<Rightarrow> True)
               then [\<lparr>field = asc ''age'',
                      message = asc ''Ya'' @ [s_ced] @ asc '' 3-18 aras'' @ [i_nodot] @ asc ''nda olmal'' @ [i_nodot],
                      code = asc ''INVALID_AGE''\<rparr>]
               else []);
            errors3 =
              (if \<not> (case get_prop request (asc ''theme'') of
                        Some (JString s) \<Rightarrow> s \<in> set (map theme_value StoryTheme_values)
                      | _ \<Rightarrow> False)
               then [\<lparr>field = asc ''theme'',
                      message = asc ''Ge'' @ [c_ced] @ asc ''ersiz hikaye temas'' @ [i_nodot],
                      code = asc ''INVALID_THEME''\<rparr>]
               else []);
            errors4 =
              (if \<not> (case get_prop request (asc ''length'') of
                        Some (JString s) \<Rightarrow> s \<in> set (map length_value StoryLength_values)
                      | _ \<Rightarrow> False)
               then [\<lparr>field = asc ''length'',
                      message = asc ''Ge'' @ [c_ced] @ asc ''ersiz hikaye uzunlu'' @ [g_brv] @ asc ''u'',
                      code = asc ''INVALID_LENGTH''\<rparr>]
               else []);
            errs = errors1 @ errors2 @ errors3 @ errors4
        in Inr \<lparr>request_valid = (length errs = 0), request_errors = errs\<rparr>)"

subsection \<open>The retry policy\<close>

definition recoverableCodes :: "ustring list" where
  "recoverableCodes =
     [asc ''INVALID_JSON'', asc ''WORD_COUNT_MISMATCH'',
      asc ''INSUFFICIENT_STRUCTURE'', asc ''NOT_STORY_FORMAT'']"

definition isRecoverableError :: "ValidationError list \<Rightarrow> bool" where
  "isRecoverableError errs = list_ex (\<lambda>error. code error \<in> set recoverableCodes) errs"

section \<open>The prompt builder\<close>

record StoryRequest =
  childName :: ustring
  age :: jsnum
  req_theme :: StoryTheme
  req_length :: StoryLength
  elements :: "ustring list option"
  token :: ustring

datatype complexity_level = Simple | Moderate | Advanced

record LengthSpec =
  spec_wordCount :: jsnum
  range :: "jsnum \<times> jsnum"
  complexity :: complexity_level

record PromptTemplate =
  version :: ustring
  basePrompt :: ustring
  ageModifiers :: "(ustring \<times> ustring) list"
  themePrompts :: "StoryTheme \<Rightarrow> ustring"
  lengthSpecs :: "StoryLength \<Rightarrow> LengthSpec"
  safetyInstructions :: ustring

text \<open>
  \<open>s.replace(pattern, replacement)\<close> with a string pattern replaces the first
  occurrence only, and reads the replacement as a template: \<open>$$\<close> is a dollar sign,
  \<open>$&\<close> the matched text, \<open>$`\<close> the text before the match and \<open>$'\<close> the text
  after it; there being no capture group, every other character stands for itself.
\<close>

fun get_substitution :: "ustring \<Rightarrow> ustring \<Rightarrow> ustring \<Rightarrow> ustring \<Rightarrow> ustring" where
  "get_substitution matched pre post [] = []"
| "get_substitution matched pre post [c] = [c]"
| "get_substitution matched pre post (c # d # t) =
     (if c = 36 \<and> d = 36 then 36 # get_substitution matched pre post t
      else if c = 36 \<and> d = 38 then matched @ get_substitution matched pre post t
      else if c = 36 \<and> d = 96 then pre @ get_substitution matched pre post t
      else if c = 36 \<and> d = 39 then post @ get_substitution matched pre post t
      else c # get_substitution matched pre post (d # t))"

fun find_first :: "ustring \<Rightarrow> ustring \<Rightarrow> (ustring \<times> ustring) option" where
  "find_first pat [] = (if pat = [] then Some ([], []) else None)"
| "find_first pat (c # s) =
     (if prefix pat (c # s) then Some ([], drop (length pat) (c # s))
      else map_option (\<lambda>(pre, post). (c # pre, post)) (find_first pat s))"

definition js_replace :: "ustring \<Rightarrow> ustring \<Rightarrow> ustring \<Rightarrow> ustring" where
  "js_replace s pat replacement =
     (case find_first pat s of
        None \<Rightarrow> s
      | Some (pre, post) \<Rightarrow> pre @ get_substitution pat pre post replacement @ post)"

definition DEFAULT_TEMPLATE :: PromptTemplate where
  "DEFAULT_TEMPLATE =
     \<lparr>version = asc ''1.0.0'',
      basePrompt =
        asc ''Sen bir '' @ [c_ced] @ asc ''ocuk masal'' @ [i_nodot] @ asc '' yazar'' @ [i_nodot] @ asc ''s'' @ [i_nodot] @ asc ''n. {childName} ad'' @ [i_nodot] @ asc ''nda {age} ya'' @ [s_ced, i_nodot] @ asc ''nda bir '' @ [c_ced] @ asc ''ocuk i'' @ [c_ced] @ asc ''in ki'' @ [s_ced] @ asc ''iselle'' @ [s_ced] @ asc ''tirilmi'' @ [s_ced] @ asc '' bir masal yaz.''
        @ [LF, LF] @ asc ''Gereksinimler:''
        @ [LF] @ asc ''- Masal T'' @ [u_uml] @ asc ''rk'' @ [c_ced] @ asc ''e olmal'' @ [i_nodot]
        @ [LF] @ asc ''- '' @ [C_ced] @ asc ''ocu'' @ [g_brv] @ asc ''un ya'' @ [s_ced, i_nodot] @ asc ''na uygun olmal'' @ [i_nodot]
        @ [LF] @ asc ''- {length} uzunlukta olmal'' @ [i_nodot]
        @ [LF] @ asc ''- {theme} temas'' @ [i_nodot] @ asc '' i'' @ [s_ced] @ asc ''lenmeli''
        @ [LF] @ asc ''- Pozitif ve e'' @ [g_brv] @ asc ''itici mesajlar i'' @ [c_ced] @ asc ''ermeli''
        @ [LF] @ asc ''- '' @ [S_ced] @ asc ''iddet, korku veya uygunsuz i'' @ [c_ced] @ asc ''erik olmamal'' @ [i_nodot],
      ageModifiers =
        [(asc ''3-5'', [C_ced] @ asc ''ok basit kelimeler kullan, tekrarlar yap, renkler ve sesler ekle.''),
         (asc ''6-8'', asc ''Basit kelimeler kullan, k'' @ [i_nodot] @ asc ''sa c'' @ [u_uml] @ asc ''mleler yaz, hayal g'' @ [u_uml] @ asc ''c'' @ [u_uml] @ asc ''n'' @ [u_uml] @ asc '' geli'' @ [s_ced] @ asc ''tir.''),
         (asc ''9-12'', asc ''Orta seviye kelimeler kullan, daha karma'' @ [s_ced, i_nodot] @ asc ''k hikaye yap'' @ [i_nodot] @ asc ''s'' @ [i_nodot] @ asc '' kur.''),
         (asc ''13+'', asc ''Zengin kelime da'' @ [g_brv] @ asc ''arc'' @ [i_nodot, g_brv, i_nodot] @ asc '' kullan, derin karakterler olu'' @ [s_ced] @ asc ''tur.'')],
      themePrompts = (\<lambda>t. case t of
          ADVENTURE \<Rightarrow> asc ''Ke'' @ [s_ced] @ asc ''if ve macera dolu bir hikaye anlat. Cesaret ve azmi vurgula.''
        | FRIENDSHIP \<Rightarrow> asc ''Dostluk, payla'' @ [s_ced, i_nodot] @ asc ''m ve yard'' @ [i_nodot] @ asc ''mla'' @ [s_ced] @ asc ''ma konular'' @ [i_nodot] @ asc ''n'' @ [i_nodot] @ asc '' i'' @ [s_ced] @ asc ''le.''
        | LEARNING \<Rightarrow> [O_uml, g_brv] @ asc ''renme ve merak konular'' @ [i_nodot] @ asc ''n'' @ [i_nodot] @ asc '' e'' @ [g_brv] @ asc ''lenceli '' @ [s_ced] @ asc ''ekilde anlat.''
        | FANTASY \<Rightarrow> asc ''B'' @ [u_uml] @ asc ''y'' @ [u_uml] @ asc ''l'' @ [u_uml] @ asc '' kreat'' @ [u_uml] @ asc ''rler ve fantastik d'' @ [u_uml] @ asc ''nyalar kur.''
        | ANIMALS \<Rightarrow> asc ''Hayvanlar ve do'' @ [g_brv] @ asc ''a ile ilgili hikaye anlat.''
        | FAMILY \<Rightarrow> asc ''Aile de'' @ [g_brv] @ asc ''erleri ve sevgiyi vurgula.''
        | NATURE \<Rightarrow> asc ''Do'' @ [g_brv] @ asc ''a sevgisi ve '' @ [c_ced] @ asc ''evre bilincini i'' @ [s_ced] @ asc ''le.''
        | MUSIC \<Rightarrow> asc ''M'' @ [u_uml] @ asc ''zik ve ritim konular'' @ [i_nodot] @ asc ''n'' @ [i_nodot] @ asc '' e'' @ [g_brv] @ asc ''lenceli '' @ [s_ced] @ asc ''ekilde kur.''),
      lengthSpecs = (\<lambda>l. case l of
          SHORT \<Rightarrow> \<lparr>spec_wordCount = Num 150, range = (Num 100, Num 200), complexity = Simple\<rparr>
        | MEDIUM \<Rightarrow> \<lparr>spec_wordCount = Num 300, range = (Num 200, Num 400), complexity = Moderate\<rparr>
        | LONG \<Rightarrow> \<lparr>spec_wordCount = Num 500, range = (Num 400, Num 600), complexity = Advanced\<rparr>),
      safetyInstructions =
        asc ''G'' @ [U_uml] @ asc ''VENLIK KURALLARI:''
        @ [LF] @ asc ''- '' @ [S_ced] @ asc ''iddet, korku veya travma i'' @ [c_ced] @ asc ''eren i'' @ [c_ced] @ asc ''erik yazma''
        @ [LF] @ asc ''- Uygunsuz kelimeler veya kavramlar kullanma''
        @ [LF] @ asc ''- Aile i'' @ [c_ced] @ asc ''in g'' @ [u_uml] @ asc ''venli ve pozitif mesajlar ver''
        @ [LF] @ asc ''- '' @ [C_ced] @ asc ''ocu'' @ [g_brv] @ asc ''un ya'' @ [s_ced] @ asc '' grubuna uygun i'' @ [c_ced] @ asc ''erik '' @ [u_uml] @ asc ''ret''\<rparr>"

definition getAgeGroup :: "jsnum \<Rightarrow> ustring" where
  "getAgeGroup a =
     (if js_le a (Num 5) then asc ''3-5''
      else if js_le a (Num 8) then asc ''6-8''
      else if js_le a (Num 12) then asc ''9-12''
      else asc ''13+'')"

definition getLengthDescription :: "host \<Rightarrow> StoryLength \<Rightarrow> LengthSpec \<Rightarrow> ustring" where
  "getLengthDescription H l spec =
     (case l of SHORT \<Rightarrow> asc ''k'' @ [i_nodot] @ asc ''sa'' | MEDIUM \<Rightarrow> asc ''orta uzunlukta'' | LONG \<Rightarrow> asc ''uzun'')
     @ asc '' (yakla'' @ [s_ced, i_nodot] @ asc ''k '' @ Number_toString H (spec_wordCount spec) @ asc '' kelime)''"

definition buildStoryPrompt :: "host \<Rightarrow> StoryRequest \<Rightarrow> PromptTemplate \<Rightarrow> ustring" where
  "buildStoryPrompt H request template =
     (let ageGroup = getAgeGroup (age request);
          lengthSpec = lengthSpecs template (req_length request);
          themePrompt = themePrompts template (req_theme request);
          ageModifier = map_of (ageModifiers template) ageGroup;
          prompt = js_replace
                     (js_replace
                        (js_replace
                           (js_replace (basePrompt template) (asc ''{childName}'') (childName request))
                           (asc ''{age}'') (Number_toString H (age request)))
                        (asc ''{length}'') (getLengthDescription H (req_length request) lengthSpec))
                     (asc ''{theme}'') themePrompt;
          prompt = prompt @
            (case ageModifier of
               Some m \<Rightarrow> if m \<noteq> [] then [LF, LF] @ asc ''Ya'' @ [s_ced] @ asc '' grubu '' @ [o_uml] @ asc ''zel talimatlar'' @ [i_nodot] @ asc '': '' @ m else []
             | None \<Rightarrow> []);
          prompt = prompt @
            (case elements request of
               Some es \<Rightarrow> if 0 < length es then [LF, LF] @ asc ''Hikayede bu '' @ [o_uml, g_brv] @ asc ''eleri de dahil et: '' @ join (asc '', '') es
                          else []
             | None \<Rightarrow> []);
          prompt = prompt @ [LF, LF] @ asc ''Hikaye uzunlu'' @ [g_brv] @ asc ''u: '' @ Number_toString H (spec_wordCount lengthSpec)
                     @ asc '' kelime civar'' @ [i_nodot] @ asc ''nda ('' @ Number_toString H (fst (range lengthSpec)) @ asc ''-''
                     @ Number_toString H (snd (range lengthSpec)) @ asc '' kelime aras'' @ [i_nodot] @ asc '').'';
          prompt = prompt @ [LF, LF] @ safetyInstructions template;
          prompt = prompt @ [LF, LF] @ asc ''Cevab'' @ [i_nodot] @ asc ''n'' @ [i_nodot] @ asc '' '' @ [s_ced] @ asc ''u JSON format'' @ [i_nodot] @ asc ''nda ver:''
                     @ [LF] @ asc ''{''
                     @ [LF] @ asc ''    '' @ [dquote] @ asc ''title'' @ [dquote] @ asc '': '' @ [dquote] @ asc ''Hikaye ba'' @ [s_ced] @ asc ''l'' @ [i_nodot, g_brv, i_nodot, dquote] @ asc '',''
                     @ [LF] @ asc ''    '' @ [dquote] @ asc ''content'' @ [dquote] @ asc '': '' @ [dquote] @ asc ''Hikaye i'' @ [c_ced] @ asc ''eri'' @ [g_brv] @ asc ''i'' @ [dquote] @ asc '',''
                     @ [LF] @ asc ''    '' @ [dquote] @ asc ''wordCount'' @ [dquote] @ asc '': kelime_say'' @ [i_nodot] @ asc ''s'' @ [i_nodot] @ asc '',''
                     @ [LF] @ asc ''    '' @ [dquote] @ asc ''theme'' @ [dquote] @ asc '': '' @ [dquote] @ theme_value (req_theme request) @ [dquote] @ asc '',''
                     @ [LF] @ asc ''    '' @ [dquote] @ asc ''language'' @ [dquote] @ asc '': '' @ [dquote] @ asc ''tr'' @ [dquote]
                     @ [LF] @ asc ''}''
      in prompt)"


section \<open>The story endpoint: generation with one retry\<close>

record Story =
  story_id :: ustring
  story_title :: ustring
  story_content :: ustring
  story_childName :: ustring
  story_theme :: StoryTheme
  story_length :: StoryLength
  story_wordCount :: jsnum
  createdAt :: ustring
  audioUrl :: "ustring option"

record StoryMetadata =
  generationTime :: jsnum
  model :: ustring
  safetyScore :: jsnum
  meta_language :: lang
  promptVersion :: ustring

record SafetyRating =
  category :: ustring
  probability :: ustring


record retry_result =
  success :: bool
  story :: "Story option"
  metadata :: "StoryMetadata option"
  error :: "ustring option"







section \<open>A sample host\<close>

text \<open>
  The theorems below hold for every host. To run the model on concrete inputs, here is one
  host: it lower-cases the ASCII, Latin-1 and Turkish capital letters (the dotted capital
  I becoming \<open>i\<close> followed by a combining dot, as in JavaScript), folds the
  corresponding small letters for case-insensitive matching, parses the document
  \<open>null\<close> and prints no fractional numbers.
\<close>

definition sample_lower_unit :: "nat \<Rightarrow> ustring" where
  "sample_lower_unit c =
     (if (65 \<le> c \<and> c \<le> 90) \<or> (192 \<le> c \<and> c \<le> 214) \<or> (216 \<le> c \<and> c \<le> 222) then [c + 32]
      else if c = I_dot then [105, 775]
      else if c = G_brv \<or> c = S_ced then [c + 1]
      else [c])"

definition sample_canonicalize :: "nat \<Rightarrow> nat" where
  "sample_canonicalize c =
     (if (97 \<le> c \<and> c \<le> 122) \<or> (224 \<le> c \<and> c \<le> 246) \<or> (248 \<le> c \<and> c \<le> 254) then c - 32
      else if c = g_brv \<or> c = s_ced then c - 1
      else c)"





definition sample_host :: host where
  "sample_host =
     \<lparr>toLowerCase = (\<lambda>s. concat (map sample_lower_unit s)),
      canonicalize = sample_canonicalize,
      JSON_parse = map_of [(asc ''null'', JNull)],
      fmt_number = (\<lambda>r. [])\<rparr>"


definition sample_request :: StoryRequest where
  "sample_request =
     \<lparr>childName = asc ''Ahmet'', age = Num 7, req_theme = ADVENTURE, req_length = SHORT,
      elements = Some [asc ''k'' @ [o_uml] @ asc ''pek'', asc ''orman''], token = asc ''test-token''\<rparr>"



section \<open>The schema and the request in the words of the specification\<close>




definition spec_theme_ok :: "json option \<Rightarrow> bool" where
  "spec_theme_ok v =
     (case v of Some (JString s) \<Rightarrow> s \<in> set (map theme_value StoryTheme_values) | _ \<Rightarrow> False)"




text \<open>
  What the specification asks of a request: the child's name a string that is not blank,
  the age an integer within the bounds, the theme and the length members of their
  enumerations.
\<close>

definition spec_name_ok :: "json option \<Rightarrow> bool" where
  "spec_name_ok v =
     (case v of Some (JString s) \<Rightarrow> list_ex (\<lambda>c. \<not> is_ws c) s | _ \<Rightarrow> False)"

definition age_in_bounds :: "json option \<Rightarrow> bool" where
  "age_in_bounds v =
     (case v of Some (JNumber n) \<Rightarrow> js_le (Num 3) n \<and> js_le n (Num 18) | _ \<Rightarrow> False)"

definition spec_age_ok :: "json option \<Rightarrow> bool" where
  "spec_age_ok v =
     (case v of Some (JNumber n) \<Rightarrow> isInteger n \<and> age_in_bounds v | _ \<Rightarrow> False)"

definition spec_length_ok :: "json option \<Rightarrow> bool" where
  "spec_length_ok v =
     (case v of Some (JString s) \<Rightarrow> s \<in> set (map length_value StoryLength_values) | _ \<Rightarrow> False)"

definition spec_request_ok :: "json \<Rightarrow> bool" where
  "spec_request_ok request =
     (spec_name_ok (get_prop request (asc ''childName''))
      \<and> spec_age_ok (get_prop request (asc ''age''))
      \<and> spec_theme_ok (get_prop request (asc ''theme''))
      \<and> spec_length_ok (get_prop request (asc ''length'')))"

section \<open>Properties\<close>

text \<open>
  C3. For every list of validation errors, \<open>isRecoverableError\<close> is true exactly when
  some error of the list has one of the codes INVALID_JSON, WORD_COUNT_MISMATCH,
  INSUFFICIENT_STRUCTURE, NOT_STORY_FORMAT; a list whose codes are all among the schema,
  safety, repetition and language codes yields false.
\<close>

theorem isRecoverableError_iff:
  "(isRecoverableError errs \<longleftrightarrow>
      (\<exists>e \<in> set errs. code e \<in> {asc ''INVALID_JSON'', asc ''WORD_COUNT_MISMATCH'',
                                     asc ''INSUFFICIENT_STRUCTURE'', asc ''NOT_STORY_FORMAT''}))
   \<and> ((\<forall>e \<in> set errs. code e \<in> {asc ''SCHEMA_VALIDATION_ERROR'', asc ''CONTENT_SAFETY_FAILED'',
                                     asc ''EXCESSIVE_REPETITION'', asc ''NO_TURKISH_CHARACTERS'',
                                     asc ''NOT_TURKISH_LANGUAGE''})
        \<longrightarrow> \<not> isRecoverableError errs)"
  by (auto simp: isRecoverableError_def recoverableCodes_def list_ex_iff asc_def)

theorem isRecoverableError_iff_witness:
  "isRecoverableError
     [\<lparr>field = asc ''content'', message = [], code = asc ''CONTENT_SAFETY_FAILED''\<rparr>,
      \<lparr>field = asc ''wordCount'', message = [], code = asc ''WORD_COUNT_MISMATCH''\<rparr>]
   \<and> \<not> isRecoverableError
     [\<lparr>field = asc ''content'', message = [], code = asc ''CONTENT_SAFETY_FAILED''\<rparr>,
      \<lparr>field = asc ''content'', message = [], code = asc ''NOT_TURKISH_LANGUAGE''\<rparr>]"
  using isRecoverableError_iff
          [of "[\<lparr>field = asc ''content'', message = [], code = asc ''CONTENT_SAFETY_FAILED''\<rparr>,
                \<lparr>field = asc ''wordCount'', message = [], code = asc ''WORD_COUNT_MISMATCH''\<rparr>]"]
        isRecoverableError_iff
          [of "[\<lparr>field = asc ''content'', message = [], code = asc ''CONTENT_SAFETY_FAILED''\<rparr>,
                \<lparr>field = asc ''content'', message = [], code = asc ''NOT_TURKISH_LANGUAGE''\<rparr>]"]
  by (simp add: asc_def)

subsection \<open>The content guard\<close>

lemma enabled_default:
  "asc ''blocked_terms'' \<in> set (enabledGuards DEFAULT_CONFIG)"
  "asc ''regex_patterns'' \<in> set (enabledGuards DEFAULT_CONFIG)"
  "asc ''length_check'' \<in> set (enabledGuards DEFAULT_CONFIG)"
  "asc ''repetition_check'' \<in> set (enabledGuards DEFAULT_CONFIG)"
  by (simp_all add: DEFAULT_CONFIG_def)

lemma default_config_fields:
  "blockedTerms_cfg DEFAULT_CONFIG = DEFAULT_BLOCKED_TERMS"
  "patterns DEFAULT_CONFIG = DEFAULT_GUARD_RULES"
  by (simp_all add: DEFAULT_CONFIG_def)

lemma checkContentSafety_default:
  "checkContentSafety H text DEFAULT_CONFIG =
     (let results = [checkBlockedTerms H text DEFAULT_BLOCKED_TERMS,
                     checkRegexPatterns H text DEFAULT_GUARD_RULES,
                     checkContentLength text,
                     checkRepetition H text]
      in \<lparr>safe = list_all sub_safe results,
          confidence = js_div (foldl (\<lambda>sum r. js_add sum (sub_confidence r)) (Num 0) results)
                         (of_count (length results)),
          categories = extractCategories (concat (map sub_issues results)),
          blockedTerms = extractBlockedTerms H text DEFAULT_BLOCKED_TERMS\<rparr>)"
  unfolding checkContentSafety_def
  by (simp add: enabled_default default_config_fields Let_def)

lemma dbl_4: "dbl 4 = Num 4"
  by (simp add: dbl_def binade_def bitlen.simps pow2_def round_even_def Let_def)

lemma of_count_4: "of_count (Suc (Suc (Suc (Suc 0)))) = Num 4"
  using dbl_4 by (simp add: of_count_def)

lemma regex_loop_blocking:
  "snd (regex_loop H text rules (is, b)) =
     b + length (filter (\<lambda>r. severity r = Block \<and> 0 < match_count H (pattern r) text) rules)"
  by (induction rules arbitrary: "is" b) (auto simp: Let_def)

lemma checkRegexPatterns_safe:
  "sub_safe (checkRegexPatterns H text rules) \<longleftrightarrow>
     (\<forall>r \<in> set rules. severity r = Block \<longrightarrow> match_count H (pattern r) text = 0)"
proof -
  have "sub_safe (checkRegexPatterns H text rules)
          \<longleftrightarrow> snd (regex_loop H text rules ([], 0)) = 0"
    by (simp add: checkRegexPatterns_def split: prod.splits)
  then show ?thesis
    by (auto simp: regex_loop_blocking filter_empty_conv)
qed

lemma checkBlockedTerms_safe:
  "sub_safe (checkBlockedTerms H text terms) \<longleftrightarrow>
     (\<forall>t \<in> set terms. \<not> str_includes (toLowerCase H text) (toLowerCase H t))"
  by (auto simp: checkBlockedTerms_def Let_def filter_empty_conv)

lemma split_runs_nonempty: "split_go P cur insep s \<noteq> []"
  by (induction s arbitrary: cur insep) auto

lemma checkContentLength_short:
  "length (split_runs is_ws text) < 50 \<Longrightarrow> \<not> sub_safe (checkContentLength text)"
  by (simp add: checkContentLength_def Let_def)




text \<open>
  C7. With the default configuration the verdict of \<open>checkContentSafety\<close> aggregates
  the four checks: \<open>safe\<close> is the conjunction of their four flags, and
  \<open>confidence\<close> is the sum of their four confidences, added from zero in the order of
  the checks, divided by four; the confidence of the blocked-term check is \<open>1.0\<close> when
  no term is found and \<open>max(0.1, 1 - foundCount * 0.3)\<close> otherwise, all in the
  arithmetic of JavaScript numbers.
\<close>

theorem aggregate_default:
  "safe (checkContentSafety H text DEFAULT_CONFIG) =
     (sub_safe (checkBlockedTerms H text DEFAULT_BLOCKED_TERMS)
      \<and> sub_safe (checkRegexPatterns H text DEFAULT_GUARD_RULES)
      \<and> sub_safe (checkContentLength text)
      \<and> sub_safe (checkRepetition H text))
   \<and> confidence (checkContentSafety H text DEFAULT_CONFIG) =
       js_div (js_add (js_add (js_add (js_add (Num 0)
                 (sub_confidence (checkBlockedTerms H text DEFAULT_BLOCKED_TERMS)))
                 (sub_confidence (checkRegexPatterns H text DEFAULT_GUARD_RULES)))
                 (sub_confidence (checkContentLength text)))
                 (sub_confidence (checkRepetition H text)))
              (Num 4)
   \<and> sub_confidence (checkBlockedTerms H text DEFAULT_BLOCKED_TERMS) =
       (let foundCount = length (filter (\<lambda>t. str_includes (toLowerCase H text) (toLowerCase H t))
                                   DEFAULT_BLOCKED_TERMS)
        in if foundCount = 0 then Num 1
           else js_max (dbl (1 / 10)) (js_sub (Num 1) (js_mul (of_count foundCount) (dbl (3 / 10)))))"
  by (simp add: checkContentSafety_default Let_def of_count_4 checkBlockedTerms_def)

theorem aggregate_default_witness:
  "\<not> safe (checkContentSafety sample_host (asc ''kan'') DEFAULT_CONFIG)
   \<and> confidence (checkContentSafety sample_host (asc ''kan'') DEFAULT_CONFIG) =
       js_div (js_add (js_add (js_add (js_add (Num 0)
                 (sub_confidence (checkBlockedTerms sample_host (asc ''kan'') DEFAULT_BLOCKED_TERMS)))
                 (sub_confidence (checkRegexPatterns sample_host (asc ''kan'') DEFAULT_GUARD_RULES)))
                 (sub_confidence (checkContentLength (asc ''kan''))))
                 (sub_confidence (checkRepetition sample_host (asc ''kan''))))
              (Num 4)"
proof -
  have "asc ''kan'' \<in> set DEFAULT_BLOCKED_TERMS"
    by (simp add: DEFAULT_BLOCKED_TERMS_def)
  moreover have "str_includes (toLowerCase sample_host (asc ''kan'')) (toLowerCase sample_host (asc ''kan''))"
    by (simp add: sample_host_def sample_lower_unit_def asc_def)
  ultimately have "\<not> sub_safe (checkBlockedTerms sample_host (asc ''kan'') DEFAULT_BLOCKED_TERMS)"
    unfolding checkBlockedTerms_safe by blast
  then show ?thesis
    using aggregate_default [of sample_host "asc ''kan''"] by simp
qed

lemma match_count_empty_block:
  "r \<in> set DEFAULT_GUARD_RULES \<Longrightarrow> severity r = Block \<Longrightarrow> match_count H (pattern r) [] = 0"
  by (auto simp: DEFAULT_GUARD_RULES_def match_count_def asc_def)

lemma preCheck_safe_iff:
  "safe (preCheckUserInput H x) \<longleftrightarrow>
      (\<forall>t \<in> set DEFAULT_BLOCKED_TERMS. \<not> str_includes (toLowerCase H x) (toLowerCase H t))
      \<and> (\<forall>r \<in> set DEFAULT_GUARD_RULES. severity r = Block \<longrightarrow> match_count H (pattern r) x = 0)"
  by (auto simp: preCheckUserInput_def checkContentSafety_def Let_def checkBlockedTerms_safe
        checkRegexPatterns_safe asc_def)

lemma checkContentSafety_short:
  "length (split_runs is_ws x) < 50 \<Longrightarrow> \<not> safe (checkContentSafety H x DEFAULT_CONFIG)"
  by (simp add: checkContentSafety_default Let_def checkContentLength_short)

text \<open>
  C10. For every input that contains no blocked term and matches no rule of severity
  \<open>block\<close>, \<open>preCheckUserInput\<close> returns \<open>safe = true\<close>, however short the
  input is, while \<open>checkContentSafety\<close> with the default configuration returns
  \<open>safe = false\<close> for every input of fewer than 50 words. In particular the empty
  string passes the pre-check (on a host that lower-cases the empty string to itself and
  no blocked term to the empty string) and fails \<open>checkContentSafety\<close>.
\<close>

theorem preCheck_only_terms_and_block_rules:
  "((\<forall>t \<in> set DEFAULT_BLOCKED_TERMS. \<not> str_includes (toLowerCase H input) (toLowerCase H t))
     \<and> (\<forall>r \<in> set DEFAULT_GUARD_RULES. severity r = Block \<longrightarrow> match_count H (pattern r) input = 0)
     \<longrightarrow> safe (preCheckUserInput H input))
   \<and> (length (split_runs is_ws input) < 50 \<longrightarrow> \<not> safe (checkContentSafety H input DEFAULT_CONFIG))
   \<and> (toLowerCase H [] = [] \<and> (\<forall>t \<in> set DEFAULT_BLOCKED_TERMS. toLowerCase H t \<noteq> [])
        \<longrightarrow> safe (preCheckUserInput H []))
   \<and> \<not> safe (checkContentSafety H [] DEFAULT_CONFIG)"
proof -
  have empty: "\<not> safe (checkContentSafety H [] DEFAULT_CONFIG)"
    by (rule checkContentSafety_short) (simp add: split_runs_def)
  have "safe (preCheckUserInput H [])"
    if "toLowerCase H [] = []" and "\<forall>t \<in> set DEFAULT_BLOCKED_TERMS. toLowerCase H t \<noteq> []"
    using that by (simp add: preCheck_safe_iff match_count_empty_block)
  with preCheck_safe_iff checkContentSafety_short empty show ?thesis by blast
qed

lemma sample_lower_nonempty: "toLowerCase sample_host t = [] \<longleftrightarrow> t = []"
  by (cases t) (auto simp: sample_host_def sample_lower_unit_def)

lemma blocked_terms_nonempty: "\<forall>t \<in> set DEFAULT_BLOCKED_TERMS. t \<noteq> []"
  by (simp add: DEFAULT_BLOCKED_TERMS_def asc_def)

theorem preCheck_only_terms_and_block_rules_witness:
  "toLowerCase sample_host [] = []
   \<and> list_all (\<lambda>t. toLowerCase sample_host t \<noteq> []) DEFAULT_BLOCKED_TERMS
   \<and> safe (preCheckUserInput sample_host [])
   \<and> \<not> safe (checkContentSafety sample_host [] DEFAULT_CONFIG)"
proof -
  have a: "toLowerCase sample_host [] = []"
    by (simp add: sample_lower_nonempty)
  have b: "\<forall>t \<in> set DEFAULT_BLOCKED_TERMS. toLowerCase sample_host t \<noteq> []"
    using blocked_terms_nonempty by (simp add: sample_lower_nonempty)
  show ?thesis
    using preCheck_only_terms_and_block_rules [of sample_host "[]"] a b
    by (simp add: list_all_iff)
qed

text \<open>
  C4. For every input that the JSON parser rejects, \<open>validateStoryResponse\<close> returns
  \<open>valid = false\<close>, no data, and exactly one error, with field \<open>response\<close> and
  code \<open>INVALID_JSON\<close>.
\<close>

theorem invalid_json_single_error:
  assumes "JSON_parse H rawResponse = None"
  shows "validateStoryResponse H rawResponse expectedLength config =
           \<lparr>valid = False, data = None,
            errors = [\<lparr>field = asc ''response'',
                       message = asc ''Ge'' @ [c_ced] @ asc ''ersiz JSON format'' @ [i_nodot],
                       code = asc ''INVALID_JSON''\<rparr>]\<rparr>"
  using assms by (simp add: validateStoryResponse_def)

theorem invalid_json_single_error_witness:
  "JSON_parse sample_host (asc ''{ invalid json format'') = None
   \<and> validateStoryResponse sample_host (asc ''{ invalid json format'') SHORT DEFAULT_VALIDATION_CONFIG =
           \<lparr>valid = False, data = None,
            errors = [\<lparr>field = asc ''response'',
                       message = asc ''Ge'' @ [c_ced] @ asc ''ersiz JSON format'' @ [i_nodot],
                       code = asc ''INVALID_JSON''\<rparr>]\<rparr>"
proof -
  have h: "JSON_parse sample_host (asc ''{ invalid json format'') = None"
    by (simp add: sample_host_def asc_def)
  show ?thesis
    using invalid_json_single_error [OF h] h by simp
qed

subsection \<open>The schema\<close>

lemma trim_blank: "length (trim s) = 0 \<longleftrightarrow> list_all is_ws s"
proof -
  have "dropWhile is_ws (rev (dropWhile is_ws s)) = [] \<longleftrightarrow> list_all is_ws s"
    by (induction s) (auto simp: dropWhile_eq_Nil_conv list_all_iff dest: set_dropWhileD)
  then show ?thesis by (simp add: trim_def)
qed





































lemma floor_samples: "\<lfloor>1801 / 2 :: rat\<rfloor> = 900" "\<lfloor>15 / 2 :: rat\<rfloor> = 7"
  by (simp_all add: floor_eq_iff)






subsection \<open>The word count\<close>















subsection \<open>The request\<close>

lemma name_check:
  "(case v of Some (JString s) \<Rightarrow> s = [] \<or> length (trim s) = 0 | _ \<Rightarrow> True) \<longleftrightarrow> \<not> spec_name_ok v"
  by (auto simp: spec_name_ok_def trim_blank list_all_iff list_ex_iff simp del: length_0_conv
           split: option.splits json.splits)

lemma age_check:
  "(case v of Some (JNumber n) \<Rightarrow> n = Num 0 \<or> n = NaN \<or> js_less n (Num 3) \<or> js_greater n (Num 18)
     | _ \<Rightarrow> True) \<longleftrightarrow> \<not> age_in_bounds v"
proof (cases v)
  case (Some j)
  show ?thesis
  proof (cases j)
    case (JNumber n)
    with Some show ?thesis
      by (cases n) (auto simp: age_in_bounds_def js_le_def js_greater_def)
  qed (simp_all add: Some age_in_bounds_def)
qed (simp add: age_in_bounds_def)

lemma theme_check:
  "(case v of Some (JString s) \<Rightarrow> s \<in> set (map theme_value StoryTheme_values) | _ \<Rightarrow> False)
     \<longleftrightarrow> spec_theme_ok v"
  by (simp add: spec_theme_ok_def)

lemma length_check:
  "(case v of Some (JString s) \<Rightarrow> s \<in> set (map length_value StoryLength_values) | _ \<Rightarrow> False)
     \<longleftrightarrow> spec_length_ok v"
  by (simp add: spec_length_ok_def)

text \<open>
  C9, as amended. For every request that is not \<open>null\<close>, \<open>validateUserRequest\<close>
  returns, and the request is valid exactly when the child's name is a string that is not
  blank, the age is a number from 3 to 18 (an integer or not), the theme is one of the 8
  themes and the length one of the 3 lengths; each violated condition gives one error, with
  the code \<open>MISSING_CHILD_NAME\<close>, \<open>INVALID_AGE\<close>, \<open>INVALID_THEME\<close> or
  \<open>INVALID_LENGTH\<close>, in this order.
\<close>

theorem request_validation_conditions:
  assumes "request \<noteq> JNull"
  shows "\<exists>r. validateUserRequest request = Inr r
     \<and> (request_valid r \<longleftrightarrow>
          spec_name_ok (get_prop request (asc ''childName''))
          \<and> age_in_bounds (get_prop request (asc ''age''))
          \<and> spec_theme_ok (get_prop request (asc ''theme''))
          \<and> spec_length_ok (get_prop request (asc ''length'')))
     \<and> map (\<lambda>e. (field e, code e)) (request_errors r) =
          (if spec_name_ok (get_prop request (asc ''childName'')) then []
           else [(asc ''childName'', asc ''MISSING_CHILD_NAME'')])
        @ (if age_in_bounds (get_prop request (asc ''age'')) then []
           else [(asc ''age'', asc ''INVALID_AGE'')])
        @ (if spec_theme_ok (get_prop request (asc ''theme'')) then []
           else [(asc ''theme'', asc ''INVALID_THEME'')])
        @ (if spec_length_ok (get_prop request (asc ''length'')) then []
           else [(asc ''length'', asc ''INVALID_LENGTH'')])"
  using assms
  unfolding validateUserRequest_def name_check age_check theme_check length_check
  by (simp add: Let_def)

text \<open>
  C9 as stated fails: it asks that the age be an integer. The request of the test suite
  with the age \<open>7.5\<close> is valid for the code, and not for the specification.
\<close>

theorem request_age_integer_counterexample:
  "validateUserRequest
     (JObject [(asc ''childName'', JString (asc ''Ahmet'')), (asc ''age'', JNumber (Num (15 / 2))),
               (asc ''theme'', JString (asc ''adventure'')), (asc ''length'', JString (asc ''short''))])
     = Inr \<lparr>request_valid = True, request_errors = []\<rparr>
   \<and> \<not> spec_request_ok
     (JObject [(asc ''childName'', JString (asc ''Ahmet'')), (asc ''age'', JNumber (Num (15 / 2))),
               (asc ''theme'', JString (asc ''adventure'')), (asc ''length'', JString (asc ''short''))])"
proof -
  let ?req = "JObject [(asc ''childName'', JString (asc ''Ahmet'')), (asc ''age'', JNumber (Num (15 / 2))),
               (asc ''theme'', JString (asc ''adventure'')), (asc ''length'', JString (asc ''short''))]"
  have ne: "?req \<noteq> JNull" by simp
  have age: "get_prop ?req (asc ''age'') = Some (JNumber (Num (15 / 2)))"
    by (simp add: asc_def)
  have ok: "spec_name_ok (get_prop ?req (asc ''childName''))"
    "age_in_bounds (get_prop ?req (asc ''age''))"
    "spec_theme_ok (get_prop ?req (asc ''theme''))"
    "spec_length_ok (get_prop ?req (asc ''length''))"
    by (simp_all add: spec_name_ok_def age_in_bounds_def spec_theme_ok_def spec_length_ok_def
          js_le_def StoryTheme_values_def StoryLength_values_def asc_def is_ws_def)
  have "\<not> spec_age_ok (get_prop ?req (asc ''age''))"
    unfolding age by (simp add: spec_age_ok_def floor_samples)
  then have "\<not> spec_request_ok ?req"
    by (simp add: spec_request_ok_def)
  moreover have "validateUserRequest ?req = Inr \<lparr>request_valid = True, request_errors = []\<rparr>"
    using ne ok unfolding validateUserRequest_def name_check age_check theme_check length_check
    by (simp add: Let_def)
  ultimately show ?thesis by simp
qed

theorem request_validation_conditions_witness:
  "JObject [(asc ''childName'', JString (asc ''Ahmet'')), (asc ''age'', JNumber (Num 25)),
            (asc ''theme'', JString (asc ''adventure'')), (asc ''length'', JString (asc ''short''))]
     \<noteq> JNull
   \<and> (\<exists>r. validateUserRequest
       (JObject [(asc ''childName'', JString (asc ''Ahmet'')), (asc ''age'', JNumber (Num 25)),
            (asc ''theme'', JString (asc ''adventure'')), (asc ''length'', JString (asc ''short''))])
       = Inr r
     \<and> \<not> request_valid r
     \<and> map (\<lambda>e. (field e, code e)) (request_errors r) = [(asc ''age'', asc ''INVALID_AGE'')])"
proof -
  let ?req = "JObject [(asc ''childName'', JString (asc ''Ahmet'')), (asc ''age'', JNumber (Num 25)),
            (asc ''theme'', JString (asc ''adventure'')), (asc ''length'', JString (asc ''short''))]"
  have ne: "?req \<noteq> JNull" by simp
  have ok: "spec_name_ok (get_prop ?req (asc ''childName''))"
    "\<not> age_in_bounds (get_prop ?req (asc ''age''))"
    "spec_theme_ok (get_prop ?req (asc ''theme''))"
    "spec_length_ok (get_prop ?req (asc ''length''))"
    by (simp_all add: spec_name_ok_def age_in_bounds_def spec_theme_ok_def spec_length_ok_def
          js_le_def StoryTheme_values_def StoryLength_values_def asc_def is_ws_def)
  show ?thesis
    using request_validation_conditions [OF ne] ok by auto
qed

subsection \<open>The prompt\<close>

lemma sample_prompt_parts:
  "\<exists>p. buildStoryPrompt H \<lparr>childName = asc ''Ahmet'', age = Num 7, req_theme = ADVENTURE,
            req_length = SHORT, elements = Some [asc ''k'' @ [o_uml] @ asc ''pek'', asc ''orman''],
            token = tok\<rparr> DEFAULT_TEMPLATE = p
       \<and> str_includes p (asc ''Ahmet'')
       \<and> str_includes p (asc ''7'')
       \<and> str_includes p (themePrompts DEFAULT_TEMPLATE ADVENTURE)
       \<and> str_includes p (asc ''k'' @ [o_uml] @ asc ''pek, orman'')
       \<and> str_includes p (asc ''JSON'')"
  by (simp add: buildStoryPrompt_def DEFAULT_TEMPLATE_def getAgeGroup_def js_le_def
        getLengthDescription_def js_replace_def dec.simps Let_def asc_def)

text \<open>
  C8. For the request with child name Ahmet, age 7, theme adventure, length short and the
  elements \<open>k\<ouml>pek\<close> and \<open>orman\<close>, whatever its token, the prompt built with the
  default template contains \<open>Ahmet\<close>, \<open>7\<close>, the description of the adventure theme,
  the elements joined by a comma and a space, and \<open>JSON\<close>.
\<close>

theorem sample_prompt_contains:
  "str_includes
     (buildStoryPrompt H \<lparr>childName = asc ''Ahmet'', age = Num 7, req_theme = ADVENTURE,
        req_length = SHORT, elements = Some [asc ''k'' @ [o_uml] @ asc ''pek'', asc ''orman''],
        token = tok\<rparr> DEFAULT_TEMPLATE)
     (asc ''Ahmet'')
   \<and> str_includes
     (buildStoryPrompt H \<lparr>childName = asc ''Ahmet'', age = Num 7, req_theme = ADVENTURE,
        req_length = SHORT, elements = Some [asc ''k'' @ [o_uml] @ asc ''pek'', asc ''orman''],
        token = tok\<rparr> DEFAULT_TEMPLATE)
     (asc ''7'')
   \<and> str_includes
     (buildStoryPrompt H \<lparr>childName = asc ''Ahmet'', age = Num 7, req_theme = ADVENTURE,
        req_length = SHORT, elements = Some [asc ''k'' @ [o_uml] @ asc ''pek'', asc ''orman''],
        token = tok\<rparr> DEFAULT_TEMPLATE)
     (themePrompts DEFAULT_TEMPLATE ADVENTURE)
   \<and> str_includes
     (buildStoryPrompt H \<lparr>childName = asc ''Ahmet'', age = Num 7, req_theme = ADVENTURE,
        req_length = SHORT, elements = Some [asc ''k'' @ [o_uml] @ asc ''pek'', asc ''orman''],
        token = tok\<rparr> DEFAULT_TEMPLATE)
     (asc ''k'' @ [o_uml] @ asc ''pek, orman'')
   \<and> str_includes
     (buildStoryPrompt H \<lparr>childName = asc ''Ahmet'', age = Num 7, req_theme = ADVENTURE,
        req_length = SHORT, elements = Some [asc ''k'' @ [o_uml] @ asc ''pek'', asc ''orman''],
        token = tok\<rparr> DEFAULT_TEMPLATE)
     (asc ''JSON'')"
  using sample_prompt_parts [of H tok] by blast

theorem sample_prompt_contains_witness:
  "str_includes (buildStoryPrompt sample_host sample_request DEFAULT_TEMPLATE) (asc ''Ahmet'')
   \<and> str_includes (buildStoryPrompt sample_host sample_request DEFAULT_TEMPLATE) (asc ''7'')
   \<and> str_includes (buildStoryPrompt sample_host sample_request DEFAULT_TEMPLATE)
        (themePrompts DEFAULT_TEMPLATE ADVENTURE)
   \<and> str_includes (buildStoryPrompt sample_host sample_request DEFAULT_TEMPLATE)
        (asc ''k'' @ [o_uml] @ asc ''pek, orman'')
   \<and> str_includes (buildStoryPrompt sample_host sample_request DEFAULT_TEMPLATE) (asc ''JSON'')"
  unfolding sample_request_def by (rule sample_prompt_contains)

subsection \<open>The retry loop\<close>









end
